theory Spec2Isabelle
  imports Complex_Main "HOL-Library.AList" "HOL-Library.Char_ord" "HOL-Library.List_Lexorder"
begin

section \<open>Python values, exceptions and the halo catalog\<close>

text \<open>
  The two modules \<^verbatim>\<open>halos_to_luminosity.py\<close> and \<^verbatim>\<open>load_halos.py\<close> are
  embedded function by function. float64 arithmetic is read as arithmetic
  on \<^typ>\<open>real\<close>: \<^verbatim>\<open>x ** y\<close> is \<open>x powr y\<close> and \<^verbatim>\<open>np.log10\<close> is \<open>log 10\<close>,
  which are the float operations for positive \<open>x\<close>; rounding, NaN and the infinities
  are outside the model, and where the source turns NaN into an exception or a value
  the condition that produces the NaN is written out. Every \<^verbatim>\<open>raise\<close> and
  \<^verbatim>\<open>sys.exit\<close> is a value of \<open>pyerror\<close>. A function that mutates its arguments
  returns the mutated objects beside its outcome, so the state an exception leaves
  behind is part of the result.
\<close>

datatype pyerror =
    SystemExit string
  | TypeError string
  | AttributeError string
  | ValueError string
  | IndexError string
  | UnboundLocalError string
  | ZeroDivisionError

text \<open>
  The values an attribute of a \<^verbatim>\<open>HaloCatalog\<close> object holds: a one-dimensional
  numpy array, a Python float, a Python int, a numpy scalar, a tuple or list of floats, a list of
  lists (the covariance matrix), or an object that is none of these (the cosmology,
  a bound method).
\<close>

datatype pyval =
    Arr "real list"
  | Num real
  | PyInt int
  | NpNum real
  | Tup "real list"
  | Mat "real list list"
  | Obj

text \<open>
  \<^verbatim>\<open>HaloCatalog\<close> gets its attributes dynamically (\<^verbatim>\<open>load\<close>, the luminosity
  models and the scatter functions add them), and \<^verbatim>\<open>indexcut\<close> walks over
  \<^verbatim>\<open>dir(self)\<close>. The object is therefore its instance dictionary, an association
  list from attribute names to values; the methods of the class are attributes too.
\<close>

type_synonym HaloCatalog = "(string \<times> pyval) list"

definition class_attrs :: "string list" where
  "class_attrs =
     [''attrcut_subset'', ''copy'', ''cull'', ''get_velocities'', ''indexcut'', ''load'',
      ''load_luminosities'', ''masscut_subset'', ''observation_cull'', ''offset_velocities'',
      ''vmaxcut_subset'', ''write_cat'']"

definition getattr :: "HaloCatalog \<Rightarrow> string \<Rightarrow> pyval option" where
  "getattr h k =
     (case map_of h k of
        Some v \<Rightarrow> Some v
      | None \<Rightarrow> if k \<in> set class_attrs then Some Obj else None)"

definition hasattr :: "HaloCatalog \<Rightarrow> string \<Rightarrow> bool" where
  "hasattr h k = (getattr h k \<noteq> None)"

definition setattr :: "HaloCatalog \<Rightarrow> string \<Rightarrow> pyval \<Rightarrow> HaloCatalog" where
  "setattr h k v = AList.update k v h"

text \<open>
  \<^verbatim>\<open>dir(self)\<close>, sorted as Python returns it, without the names that start with an
  underscore, which every loop skips.
\<close>

definition dir_public :: "HaloCatalog \<Rightarrow> string list" where
  "dir_public h = sort (remdups (filter (\<lambda>k. take 1 k \<noteq> ''_'') (class_attrs @ map fst h)))"

text \<open>Reading a per-halo array attribute such as \<^verbatim>\<open>halos.M\<close>.\<close>

definition arr_attr :: "HaloCatalog \<Rightarrow> string \<Rightarrow> pyerror + real list" where
  "arr_attr h k =
     (case getattr h k of
        None \<Rightarrow> Inl (AttributeError k)
      | Some (Arr xs) \<Rightarrow> Inr xs
      | Some _ \<Rightarrow> Inl (TypeError k))"

section \<open>numpy operations\<close>

text \<open>Elementwise arithmetic of two arrays, with numpy's broadcasting of a length-1 array.\<close>

definition np_zip :: "('a \<Rightarrow> 'b \<Rightarrow> 'c) \<Rightarrow> 'a list \<Rightarrow> 'b list \<Rightarrow> pyerror + 'c list" where
  "np_zip f xs ys =
     (if length xs = length ys then Inr (map2 f xs ys)
      else if length xs = 1 then Inr (map (f (hd xs)) ys)
      else if length ys = 1 then Inr (map (\<lambda>x. f x (hd ys)) xs)
      else Inl (ValueError ''operands could not be broadcast together''))"

text \<open>
  \<^verbatim>\<open>a[idx]\<close> for an integer index array \<open>idx\<close> of non-negative entries. A numpy
  array is indexed entry by entry; a numpy scalar raises IndexError; a Python number, a
  tuple, a list or any other object raises TypeError. (Old numpy versions let an index
  array of exactly one entry index a tuple or list; that is not modelled.)
\<close>

fun fancy_index :: "pyval \<Rightarrow> nat list \<Rightarrow> pyerror + pyval" where
  "fancy_index (Arr xs) idx =
     (if list_all (\<lambda>i. i < length xs) idx then Inr (Arr (map (\<lambda>i. xs ! i) idx))
      else Inl (IndexError ''index is out of bounds''))"
| "fancy_index (NpNum x) idx = Inl (IndexError ''invalid index to scalar variable'')"
| "fancy_index v idx = Inl (TypeError ''object is not subscriptable'')"

text \<open>\<^verbatim>\<open>np.where(mask)[0]\<close>: the positions where the mask holds, ascending.\<close>

definition np_where :: "bool list \<Rightarrow> nat list" where
  "np_where bs = filter (\<lambda>i. bs ! i) [0..<length bs]"

text \<open>
  \<^verbatim>\<open>np.argsort(a)\<close>: a permutation of the positions that sorts \<open>a\<close> ascending (numpy
  does not promise an order among equal keys; the stable one is taken here).
\<close>

definition np_argsort :: "real list \<Rightarrow> nat list" where
  "np_argsort a = sort_key (\<lambda>i. a ! i) [0..<length a]"

section \<open>External collaborators\<close>

text \<open>
  What the code calls and this repository does not define: numpy's random generators,
  the tabulated star formation rate, \<^verbatim>\<open>tools.freq_to_z\<close> and astropy's comoving volume.
  \<^item> \<open>standard_normal s i\<close>: deviate number \<open>i\<close> of the legacy global generator after
    \<^verbatim>\<open>np.random.seed(s)\<close>;
  \<^item> \<open>multivariate_normal s cov n i\<close>: row \<open>i\<close> of
    \<^verbatim>\<open>default_rng(s).multivariate_normal([0,0], cov, size=n)\<close>;
  \<^item> \<open>rng_choice s n k p\<close>: \<^verbatim>\<open>default_rng(s).choice(n, k, replace=False, p=p)\<close>, when numpy
    accepts the arguments;
  \<^item> \<open>get_sfr_table b\<close>: the \<^verbatim>\<open>ev\<close> method of the spline \<^verbatim>\<open>get_sfr_table(b)\<close> fits.
\<close>

record env =
  standard_normal :: "int \<Rightarrow> nat \<Rightarrow> real"
  multivariate_normal :: "int \<Rightarrow> real list list \<Rightarrow> nat \<Rightarrow> nat \<Rightarrow> real \<times> real"
  rng_choice :: "int \<Rightarrow> nat \<Rightarrow> nat \<Rightarrow> real list \<Rightarrow> nat list"
  get_sfr_table :: "bool \<Rightarrow> real \<Rightarrow> real \<Rightarrow> real"
  freq_to_z :: "real \<Rightarrow> real \<Rightarrow> real"
  comoving_volume :: "real \<Rightarrow> real"

section \<open>ScatterEngine\<close>

text \<open>A scatter width is a float, or (in the Yang model) one float per halo.\<close>

datatype dexval = Dex real | DexArr "real list"

fun np_any_le0 :: "dexval \<Rightarrow> bool" where
  "np_any_le0 (Dex d) = (d \<le> 0)"
| "np_any_le0 (DexArr ds) = list_ex (\<lambda>d. d \<le> 0) ds"

text \<open>Lines 614-615: the log-space standard deviation and mean of the independent scatter.\<close>

definition lognormal_sigma :: "real \<Rightarrow> real" where
  "lognormal_sigma dex = dex * 2.302585"

definition lognormal_mu :: "real \<Rightarrow> real" where
  "lognormal_mu sigma = - 0.5 * sigma\<^sup>2"

text \<open>
  \<^verbatim>\<open>np.random.lognormal(mu, sigma, data.shape)\<close> after \<^verbatim>\<open>np.random.seed(s)\<close>: element
  \<open>i\<close> is \<open>exp (mu + sigma * z)\<close> for the \<open>i\<close>-th standard normal deviate \<open>z\<close>. An array of
  widths must have the shape of the data, or length 1.
\<close>

fun randscaling :: "env \<Rightarrow> int \<Rightarrow> dexval \<Rightarrow> nat \<Rightarrow> pyerror + real list" where
  "randscaling E s (Dex d) n =
     Inr (map (\<lambda>i. exp (lognormal_mu (lognormal_sigma d)
                         + lognormal_sigma d * standard_normal E s i)) [0..<n])"
| "randscaling E s (DexArr ds) n =
     (if length ds = n \<or> length ds = 1 then
        Inr (map (\<lambda>i. let d = (if length ds = 1 then hd ds else ds ! i)
                       in exp (lognormal_mu (lognormal_sigma d)
                               + lognormal_sigma d * standard_normal E s i)) [0..<n])
      else Inl (ValueError ''shape mismatch''))"

text \<open>
  \<^verbatim>\<open>add_log_normal_scatter(data, dex, seed)\<close>. \<^verbatim>\<open>np.random.seed\<close> accepts
  \<open>0 \<le> s < 2^32\<close> only; a Python number has no \<^verbatim>\<open>shape\<close>.
\<close>

definition add_log_normal_scatter :: "env \<Rightarrow> pyval \<Rightarrow> dexval \<Rightarrow> int \<Rightarrow> pyerror + pyval" where
  "add_log_normal_scatter E data dex seed =
     (if np_any_le0 dex then Inr data
      else if seed * 13579 < 0 \<or> 2 ^ 32 \<le> seed * 13579
        then Inl (ValueError ''Seed must be between 0 and 2**32 - 1'')
      else case data of
          Arr xs \<Rightarrow>
            (case randscaling E (seed * 13579) dex (length xs) of
               Inl e \<Rightarrow> Inl e
             | Inr rs \<Rightarrow> Inr (Arr (map2 (\<lambda>x r. if x > 0 then x * r else x) xs rs)))
        | NpNum x \<Rightarrow>
            (case randscaling E (seed * 13579) dex 1 of
               Inl e \<Rightarrow> Inl e
             | Inr rs \<Rightarrow> Inr (NpNum (if x > 0 then x * hd rs else x)))
        | _ \<Rightarrow> Inl (AttributeError ''shape''))"

text \<open>Lines 653-658: the log-space sigma of the correlated scatter.\<close>

definition joint_sigma :: "real \<Rightarrow> real" where
  "joint_sigma dex = dex * 2.30285"

definition joint_mu :: "real \<Rightarrow> real" where
  "joint_mu sigma = - 0.5 * sigma\<^sup>2"

definition joint_cov :: "real \<Rightarrow> real \<Rightarrow> real \<Rightarrow> real list list" where
  "joint_cov rho codex catdex =
     [[(joint_sigma codex)\<^sup>2, joint_sigma codex * joint_sigma catdex * rho],
      [joint_sigma codex * joint_sigma catdex * rho, (joint_sigma catdex)\<^sup>2]]"

text \<open>\<^verbatim>\<open>a * scale\<close> for an attribute value \<open>a\<close> and an array \<open>scale\<close>.\<close>

fun np_mul :: "pyval \<Rightarrow> real list \<Rightarrow> pyerror + pyval" where
  "np_mul (Arr xs) ys = map_sum id Arr (np_zip (*) xs ys)"
| "np_mul (Num x) ys = Inr (Arr (map (\<lambda>y. x * y) ys))"
| "np_mul (NpNum x) ys = Inr (Arr (map (\<lambda>y. x * y) ys))"
| "np_mul (PyInt x) ys = Inr (Arr (map (\<lambda>y. real_of_int x * y) ys))"
| "np_mul v ys = Inl (TypeError ''unsupported operand'')"

fun py_len :: "pyval option \<Rightarrow> string \<Rightarrow> pyerror + nat" where
  "py_len None k = Inl (AttributeError k)"
| "py_len (Some (Arr xs)) k = Inr (length xs)"
| "py_len (Some (Tup xs)) k = Inr (length xs)"
| "py_len (Some (Mat xs)) k = Inr (length xs)"
| "py_len (Some v) k = Inl (TypeError ''object has no len()'')"

text \<open>
  \<^verbatim>\<open>add_co_tracer_dependant_scatter(halos, rho, codex, catdex, seed)\<close>: the catalog it
  leaves behind, and the exception if one is raised. \<^verbatim>\<open>halos.cov\<close> is stored before the
  luminosities are read, and \<^verbatim>\<open>halos.Lco\<close> is replaced before \<^verbatim>\<open>halos.Lcat\<close> is read.
\<close>

definition add_co_tracer_dependant_scatter ::
  "env \<Rightarrow> HaloCatalog \<Rightarrow> real \<Rightarrow> real \<Rightarrow> real \<Rightarrow> int \<Rightarrow> pyerror option \<times> HaloCatalog" where
  "add_co_tracer_dependant_scatter E halos rho codex catdex seed =
     (if codex \<le> 0 \<or> catdex \<le> 0 then (None, halos)
      else if seed < 0 then (Some (ValueError ''expected non-negative integer''), halos)
      else
        let sigmaco = joint_sigma codex; muco = joint_mu sigmaco;
            sigmatr = joint_sigma catdex; mutr = joint_mu sigmatr;
            cov = joint_cov rho codex catdex;
            h1 = setattr halos ''cov'' (Mat cov)
        in case py_len (getattr h1 ''Lco'') ''Lco'' of
             Inl e \<Rightarrow> (Some e, h1)
           | Inr n \<Rightarrow>
               let draws = map (multivariate_normal E seed cov n) [0..<n];
                   logscaleco = map (\<lambda>(c, t). exp (c + muco)) draws;
                   logscaletr = map (\<lambda>(c, t). exp (t + mutr)) draws
               in case np_mul (the (getattr h1 ''Lco'')) logscaleco of
                    Inl e \<Rightarrow> (Some e, h1)
                  | Inr lco \<Rightarrow>
                      let h2 = setattr h1 ''Lco'' lco
                      in case getattr h2 ''Lcat'' of
                           None \<Rightarrow> (Some (AttributeError ''Lcat''), h2)
                         | Some lcat \<Rightarrow>
                             (case np_mul lcat logscaletr of
                                Inl e \<Rightarrow> (Some e, h2)
                              | Inr lcat' \<Rightarrow> (None, setattr h2 ''Lcat'' lcat')))"

section \<open>Parameters and program state\<close>

text \<open>
  \<^verbatim>\<open>params.co_model_coeffs\<close>: \<^verbatim>\<open>None\<close>, a tuple of floats, a callable, or the tuple
  \<^verbatim>\<open>(callable, sfr_calc[, sigma_sfr[, bad_extrapolation]])\<close> of the arbitrary model.
  A callable is taken to be a pure function of the catalog.
\<close>

datatype arb_opts = Arb2 | Arb3 real | Arb4 real bool

datatype coeffs =
    CNone
  | CFloats "real list"
  | CCallable "HaloCatalog \<Rightarrow> pyval"
  | CArb "HaloCatalog \<Rightarrow> pyval" bool arb_opts

fun is_None :: "coeffs \<Rightarrow> bool" where
  "is_None CNone = True"
| "is_None c = False"

text \<open>\<^verbatim>\<open>params.catalog_coeffs\<close>: the attribute may be missing, \<^verbatim>\<open>None\<close>, or a sequence of floats.\<close>

datatype cat_coeffs = Absent | PyNone | Coeffs "real list"

record SimParameters =
  model :: string
  co_model_coeffs :: coeffs
  catalog_model :: "string option"
  catalog_coeffs :: cat_coeffs
  codex :: real
  catdex :: real
  rho :: real
  lum_uncert_seed :: "int option"
  save_scatterless_lums :: "bool option"
  min_mass :: real
  mass_cutoff :: real
  nu_rest :: real
  nu_i :: real
  nu_f :: real
  z_i :: "real option"
  z_f :: "real option"
  fov_x :: real
  fov_y :: real
  lcat_cutoff :: real
  goal_nobj :: int
  obs_weight :: string
  vcat_seed :: int
  verbose :: bool

text \<open>
  The objects a call can mutate: the halo catalog, the parameter object and the module
  global \<^verbatim>\<open>sfr_interp_tab\<close> (\<^verbatim>\<open>None\<close> until the table is first built).
\<close>

record world =
  catalog :: HaloCatalog
  params :: SimParameters
  sfr_interp_tab :: "(real \<Rightarrow> real \<Rightarrow> real) option"

text \<open>Sequencing: an exception ends the computation and keeps the state reached.\<close>

definition py_bind ::
  "(pyerror + 'a) \<times> world \<Rightarrow> ('a \<Rightarrow> world \<Rightarrow> (pyerror + 'b) \<times> world) \<Rightarrow> (pyerror + 'b) \<times> world" where
  "py_bind r f = (case r of (Inl e, w) \<Rightarrow> (Inl e, w) | (Inr x, w) \<Rightarrow> f x w)"

section \<open>SfrTable\<close>

text \<open>
  \<^verbatim>\<open>Mhalo_to_sfr_Behroozi(halos, sigma_sfr, bad_extrapolation)\<close>: the table is built on
  the first call only and kept in the global.
\<close>

definition Mhalo_to_sfr_Behroozi :: "env \<Rightarrow> real \<Rightarrow> bool \<Rightarrow> world \<Rightarrow> (pyerror + pyval) \<times> world" where
  "Mhalo_to_sfr_Behroozi E sigma_sfr bad_extrapolation w =
     (let tab = (case sfr_interp_tab w of
                   None \<Rightarrow> get_sfr_table E bad_extrapolation
                 | Some t \<Rightarrow> t);
          w1 = w\<lparr>sfr_interp_tab := Some tab\<rparr>
      in py_bind (arr_attr (catalog w1) ''M'', w1) (\<lambda>m w2.
         py_bind (arr_attr (catalog w2) ''redshift'', w2) (\<lambda>z w3.
         py_bind (np_zip (\<lambda>m z. tab (log 10 m) (log 10 (z + 1))) m z, w3) (\<lambda>sfr w4.
           if sigma_sfr > 0 then (add_log_normal_scatter E (Arr sfr) (Dex sigma_sfr) 1, w4)
           else (Inr (Arr sfr), w4)))))"

text \<open>
  The statement \<^verbatim>\<open>halos.sfr = Mhalo_to_sfr_Behroozi(halos, sigma_sfr, ...)\<close>.
\<close>

definition store_sfr :: "env \<Rightarrow> real \<Rightarrow> bool \<Rightarrow> world \<Rightarrow> (pyerror + unit) \<times> world" where
  "store_sfr E sigma_sfr bad_extrapolation w =
     py_bind (Mhalo_to_sfr_Behroozi E sigma_sfr bad_extrapolation w) (\<lambda>sfr w1.
       (Inr (), w1\<lparr>catalog := setattr (catalog w1) ''sfr'' sfr\<rparr>))"

section \<open>LcoModelRegistry\<close>

text \<open>
  \<^verbatim>\<open>a, b, ... = coeffs\<close> with \<open>n\<close> targets. A value that is not \<^verbatim>\<open>None\<close>: a tuple of
  another length is a ValueError, a function cannot be unpacked, and the tuple of the
  arbitrary model holds a function where a float is needed.
\<close>

fun unpack_coeffs :: "nat \<Rightarrow> coeffs \<Rightarrow> pyerror + real list" where
  "unpack_coeffs n (CFloats xs) =
     (if length xs = n then Inr xs else Inl (ValueError ''wrong number of values to unpack''))"
| "unpack_coeffs n (CCallable f) = Inl (TypeError ''cannot unpack non-iterable function object'')"
| "unpack_coeffs n (CArb f b opts) =
     (if n = (case opts of Arb2 \<Rightarrow> 2 | Arb3 s \<Rightarrow> 3 | Arb4 s e \<Rightarrow> 4)
      then Inl (TypeError ''unsupported operand type'')
      else Inl (ValueError ''wrong number of values to unpack''))"
| "unpack_coeffs n CNone = Inl (TypeError ''cannot unpack non-iterable NoneType object'')"

definition Mhalo_to_Lco_Li :: "env \<Rightarrow> coeffs \<Rightarrow> bool \<Rightarrow> world \<Rightarrow> (pyerror + pyval) \<times> world" where
  "Mhalo_to_Lco_Li E cs scatter w =
     py_bind ((if is_None cs then Inr [0.0, 1.37, -1.74, 0.3, 0.3, 1.0]
               else unpack_coeffs 6 cs), w) (\<lambda>c w0.
       let log_delta_mf = c ! 0; alpha = c ! 1; beta = c ! 2;
           sigma_sfr = c ! 3; sigma_lco = c ! 4; scale = c ! 5;
           delta_mf = 10 powr log_delta_mf
       in py_bind (if \<not> hasattr (catalog w0) ''sfr'' then store_sfr E sigma_sfr False w0
                   else (Inr (), w0)) (\<lambda>_ w1.
          py_bind (arr_attr (catalog w1) ''sfr'', w1) (\<lambda>sfr w2.
            if alpha = 0 then (Inl ZeroDivisionError, w2)
            else
              let alphainv = 1 / alpha;
                  Lco = map (\<lambda>s. 4.9 / 10 ^ 5 * ((s * 10 ^ 10 / delta_mf) powr alphainv
                                                  * 10 powr (- beta * alphainv)) * scale) sfr
              in if scatter then (add_log_normal_scatter E (Arr Lco) (Dex sigma_lco) 2, w2)
                 else (Inr (Arr Lco), w2))))"

definition Mhalo_to_Lco_Li_sigmasc :: "env \<Rightarrow> coeffs \<Rightarrow> bool \<Rightarrow> world \<Rightarrow> (pyerror + pyval) \<times> world" where
  "Mhalo_to_Lco_Li_sigmasc E cs scatter w =
     py_bind ((if is_None cs then Inr [0.0, 1.37, -1.74, 0.3]
               else unpack_coeffs 4 cs), w) (\<lambda>c w0.
       let log_delta_mf = c ! 0; alpha = c ! 1; beta = c ! 2; sigma_sc = c ! 3;
           delta_mf = 10 powr log_delta_mf
       in py_bind (if \<not> hasattr (catalog w0) ''sfr'' then store_sfr E 0 False w0
                   else (Inr (), w0)) (\<lambda>_ w1.
          py_bind (arr_attr (catalog w1) ''sfr'', w1) (\<lambda>sfr w2.
            if alpha = 0 then (Inl ZeroDivisionError, w2)
            else
              let alphainv = 1 / alpha;
                  Lco = map (\<lambda>s. 4.9 / 10 ^ 5 * ((s * 10 ^ 10 / delta_mf) powr alphainv
                                                  * 10 powr (- beta * alphainv))) sfr
              in if scatter then (add_log_normal_scatter E (Arr Lco) (Dex sigma_sc) 2, w2)
                 else (Inr (Arr Lco), w2))))"

definition Mhalo_to_Lco_Padmanabhan :: "env \<Rightarrow> coeffs \<Rightarrow> bool \<Rightarrow> world \<Rightarrow> (pyerror + pyval) \<times> world" where
  "Mhalo_to_Lco_Padmanabhan E cs scatter w =
     py_bind ((if is_None cs
               then Inr [4.17 * 10 ^ 12, -1.17, 0.0033, 0.04, 0.95, 0.48, 0.66, -0.33, 1]
               else unpack_coeffs 9 cs), w) (\<lambda>c w0.
       let m10 = c ! 0; m11 = c ! 1; n10 = c ! 2; n11 = c ! 3; b10 = c ! 4; b11 = c ! 5;
           y10 = c ! 6; y11 = c ! 7; fduty = c ! 8
       in py_bind (arr_attr (catalog w0) ''redshift'', w0) (\<lambda>z w1.
          py_bind (arr_attr (catalog w1) ''M'', w1) (\<lambda>hm w2.
          py_bind (np_zip (\<lambda>z hm.
                     let m1 = 10 powr (log 10 m10 + m11 * z / (z + 1));
                         n = n10 + n11 * z / (z + 1);
                         b = b10 + b11 * z / (z + 1);
                         y = y10 + y11 * z / (z + 1);
                         Lprime = 2 * n * hm / ((hm / m1) powr (- b) + (hm / m1) powr y)
                     in 4.9 / 10 ^ 5 * Lprime * fduty) z hm, w2) (\<lambda>Lco w3.
            (Inr (Arr Lco), w3)))))"

definition Mhalo_to_Lco_fiuducial :: "env \<Rightarrow> coeffs \<Rightarrow> bool \<Rightarrow> world \<Rightarrow> (pyerror + pyval) \<times> world" where
  "Mhalo_to_Lco_fiuducial E cs scatter w =
     py_bind ((if is_None cs then Inr [-2.85, -0.42, 10.63, 12.3, 0.42]
               else unpack_coeffs 5 cs), w) (\<lambda>c w0.
       let A = c ! 0; B = c ! 1; logC = c ! 2; logM = c ! 3; sigma = c ! 4
       in py_bind (arr_attr (catalog w0) ''M'', w0) (\<lambda>Mh w1.
            let C = 10 powr logC;
                M = 10 powr logM;
                Lco = map (\<lambda>mh. 4.9 / 10 ^ 5 * (C / ((mh / M) powr A + (mh / M) powr B))) Mh
            in if scatter then (add_log_normal_scatter E (Arr Lco) (Dex sigma) 3, w1)
               else (Inr (Arr Lco), w1)))"

definition Mhalo_to_Lco_Yang :: "env \<Rightarrow> coeffs \<Rightarrow> bool \<Rightarrow> world \<Rightarrow> (pyerror + pyval) \<times> world" where
  "Mhalo_to_Lco_Yang E cs scatter w =
     (if \<not> is_None cs then (Inr (PyInt 0), w)
      else
        py_bind (arr_attr (catalog w) ''redshift'', w) (\<lambda>z w1.
        py_bind (arr_attr (catalog w1) ''M'', w1) (\<lambda>Mh w2.
        py_bind (np_zip (\<lambda>z Mh.
                   let logM1 = 12.13 - 0.1678 * z;
                       logN = - 6.855 + 0.2366 * z - 0.05013 * z\<^sup>2;
                       alpha = 1.642 + 0.1663 * z - 0.03238 * z\<^sup>2;
                       beta = 1.77 * exp (- 1 / 2.72) - 0.00827;
                       M1 = 10 powr logM1;
                       N = 10 powr logN;
                       Lco = 2 * N * Mh / ((Mh / M1) powr (- alpha) + (Mh / M1) powr (- beta));
                       logM2 = 11.73 + 0.6634 * z;
                       gamma = 1.37 - 0.190 * z + 0.0215 * z\<^sup>2;
                       M2 = 10 powr logM2;
                       fduty = 1 / (1 + (Mh / M2) powr gamma)
                   in Lco * fduty) z Mh, w2) (\<lambda>Lco w3.
          let sigmaco = map (\<lambda>z. 0.357 - 0.0701 * z + 0.00621 * z\<^sup>2) z
          in if scatter then (add_log_normal_scatter E (Arr Lco) (DexArr sigmaco) 4, w3)
             else (Inr (Arr Lco), w3)))))"

text \<open>
  \<^verbatim>\<open>Mhalo_to_Lco_arbitrary\<close>. With \<^verbatim>\<open>sfr_calc\<close> set the star formation rate is computed
  and assigned to \<^verbatim>\<open>halos.sfr\<close> with no \<^verbatim>\<open>hasattr\<close> test (lines 294-295). A tuple of
  floats passes the slicing (its second entry read as a truth value) and fails when its
  first entry is called; \<^verbatim>\<open>None\<close> cannot be sliced.
\<close>

definition Mhalo_to_Lco_arbitrary :: "env \<Rightarrow> coeffs \<Rightarrow> bool \<Rightarrow> world \<Rightarrow> (pyerror + pyval) \<times> world" where
  "Mhalo_to_Lco_arbitrary E cs scatter w =
     (case cs of
        CCallable lco_func \<Rightarrow>
          py_bind (store_sfr E 0.3 False w) (\<lambda>_ w1. (Inr (lco_func (catalog w1)), w1))
      | CArb lco_func sfr_calc opts \<Rightarrow>
          let sigma_sfr = (case opts of Arb2 \<Rightarrow> 0.3 | Arb3 s \<Rightarrow> s | Arb4 s e \<Rightarrow> s);
              bad_extrapolation = (case opts of Arb4 s e \<Rightarrow> e | _ \<Rightarrow> False)
          in py_bind (if sfr_calc then store_sfr E sigma_sfr bad_extrapolation w
                      else (Inr (), w)) (\<lambda>_ w1. (Inr (lco_func (catalog w1)), w1))
      | CFloats xs \<Rightarrow>
          if length xs < 2 then (Inl (ValueError ''not enough values to unpack''), w)
          else
            let sigma_sfr = (if length xs > 2 then xs ! 2 else 0.3);
                bad_extrapolation = (if length xs > 3 then xs ! 3 \<noteq> 0 else False)
            in py_bind (if xs ! 1 \<noteq> 0 then store_sfr E sigma_sfr bad_extrapolation w
                        else (Inr (), w)) (\<lambda>_ w1.
                 (Inl (TypeError ''float object is not callable''), w1))
      | CNone \<Rightarrow> (Inl (TypeError ''NoneType object is not subscriptable''), w))"

text \<open>The dictionary of \<^verbatim>\<open>Mhalo_to_Lco\<close> (lines 101-107), keys as the source spells them.\<close>

definition Lco_dict ::
  "(string \<times> (env \<Rightarrow> coeffs \<Rightarrow> bool \<Rightarrow> world \<Rightarrow> (pyerror + pyval) \<times> world)) list" where
  "Lco_dict =
     [(''Li'', Mhalo_to_Lco_Li),
      (''Li_sc'', Mhalo_to_Lco_Li_sigmasc),
      (''Padmanabhan'', Mhalo_to_Lco_Padmanabhan),
      (''fiuducial'', Mhalo_to_Lco_fiuducial),
      (''Yang'', Mhalo_to_Lco_Yang),
      (''arbitrary'', Mhalo_to_Lco_arbitrary)]"

definition nl :: string where "nl = [CHR 0x0A]"
definition tab :: string where "tab = [CHR 0x09]"

text \<open>
  \<^verbatim>\<open>Mhalo_to_Lco(halos, params, scatter)\<close>; the decorator \<^verbatim>\<open>timeme\<close> of
  \<^verbatim>\<open>tools\<close> is taken to return what the function returns.
\<close>

definition Mhalo_to_Lco :: "env \<Rightarrow> bool \<Rightarrow> world \<Rightarrow> (pyerror + pyval) \<times> world" where
  "Mhalo_to_Lco E scatter w =
     (case map_of Lco_dict (model (params w)) of
        Some f \<Rightarrow> f E (co_model_coeffs (params w)) scatter w
      | None \<Rightarrow>
          (Inl (SystemExit (nl @ nl @ tab @ ''Your model, '' @ model (params w)
                            @ '', does not seem to exist'' @ nl @ tab @ tab
                            @ ''Please check src/halos_to_luminosity.py to add it'' @ nl @ nl)), w))"

section \<open>AbundanceMatcher\<close>

text \<open>
  \<^verbatim>\<open>schechter(L, coeffs)\<close>: the list must unpack into five names; the quotient of two
  Python floats raises for a zero divisor.
\<close>

definition schechter :: "real list \<Rightarrow> real list \<Rightarrow> pyerror + real list" where
  "schechter L cs =
     (if length cs \<noteq> 5 then Inl (ValueError ''wrong number of values to unpack'')
      else
        let Lstar = cs ! 0; phistar = cs ! 1; alpha = cs ! 2
        in if Lstar = 0 then Inl ZeroDivisionError
           else Inr (map (\<lambda>l. (phistar / Lstar) * (l / Lstar) powr alpha * exp (- l / Lstar)) L))"

text \<open>\<^verbatim>\<open>np.linspace(a, b, n + 1)\<close>, and the differences and midpoints of consecutive edges.\<close>

definition np_linspace :: "real \<Rightarrow> real \<Rightarrow> nat \<Rightarrow> real list" where
  "np_linspace a b n = map (\<lambda>k. a + real k * (b - a) / real n) [0..<Suc n]"

definition np_diff :: "real list \<Rightarrow> real list" where
  "np_diff e = map (\<lambda>k. e ! Suc k - e ! k) [0..<length e - 1]"

definition np_cents :: "real list \<Rightarrow> real list" where
  "np_cents e = map (\<lambda>k. e ! k + (e ! Suc k - e ! k) / 2) [0..<length e - 1]"

text \<open>The loops of lines 375-377 and 416-418: entry \<open>i\<close> is \<^verbatim>\<open>np.sum(a[i:])\<close>.\<close>

definition tail_sums :: "real list \<Rightarrow> real list" where
  "tail_sums a = map (\<lambda>i. sum_list (drop i a)) [0..<length a]"

text \<open>
  \<^verbatim>\<open>np.histogram(v, bins)\<close>: edges from the smallest to the largest value (widened by a
  half on both sides when they coincide, the unit interval for no data), every bin
  closed on the left and open on the right but the last, which is closed.
\<close>

definition histogram_edges :: "real list \<Rightarrow> nat \<Rightarrow> real list" where
  "histogram_edges v bins =
     (let lo = (if v = [] then 0 else fold min v (hd v));
          hi = (if v = [] then 1 else fold max v (hd v));
          first = (if lo = hi then lo - 0.5 else lo);
          last = (if lo = hi then hi + 0.5 else hi)
      in np_linspace first last bins)"

definition histogram_counts :: "real list \<Rightarrow> nat \<Rightarrow> nat list" where
  "histogram_counts v bins =
     (let e = histogram_edges v bins
      in map (\<lambda>k. length (filter (\<lambda>x. e ! k \<le> x \<and> (x < e ! Suc k \<or> (Suc k = bins \<and> x = e ! Suc k))) v))
           [0..<bins])"

text \<open>
  \<^verbatim>\<open>np.interp(x, xp, fp)\<close> for one \<open>x\<close> and increasing sample points: constant outside
  the samples, and between them linear on the segment that starts at the last sample
  point not above \<open>x\<close>. (For sample points that do not increase numpy's result has no
  meaning, and this function does not describe it.)
\<close>

fun interp_from :: "real \<Rightarrow> (real \<times> real) list \<Rightarrow> real" where
  "interp_from x [] = 0"
| "interp_from x [(a, fa)] = fa"
| "interp_from x ((a, fa) # (b, fb) # ps) =
     (if x < b then (if x = a then fa else (fb - fa) / (b - a) * (x - a) + fa)
      else interp_from x ((b, fb) # ps))"

definition interp1 :: "real list \<Rightarrow> real list \<Rightarrow> real \<Rightarrow> real" where
  "interp1 xp fp x =
     (if x > last xp then last fp
      else if x < hd xp then hd fp
      else interp_from x (zip xp fp))"

definition np_interp :: "real list \<Rightarrow> real list \<Rightarrow> real list \<Rightarrow> pyerror + real list" where
  "np_interp x xp fp =
     (if xp = [] then Inl (ValueError ''array of sample points is empty'')
      else if length xp \<noteq> length fp then Inl (ValueError ''fp and xp are not of the same length'')
      else Inr (map (interp1 xp fp) x))"

text \<open>
  \<^verbatim>\<open>halomassfunction(halos, params)\<close>. The logarithm of a mass that is not positive is
  not finite, and \<^verbatim>\<open>np.histogram\<close> refuses such a range. The survey volume is the
  comoving shell between the redshift bounds, scaled from the full sky to the field of
  view (square degrees to steradians).
\<close>

definition survey_volume :: "env \<Rightarrow> real \<Rightarrow> real \<Rightarrow> real \<Rightarrow> real \<Rightarrow> real" where
  "survey_volume E zi zf fx fy =
     (comoving_volume E zf - comoving_volume E zi) / (4 * pi) * (fx * fy * (pi / 180)\<^sup>2)"

definition halomassfunction :: "env \<Rightarrow> world \<Rightarrow> pyerror + real list \<times> real list" where
  "halomassfunction E w =
     (case arr_attr (catalog w) ''M'' of
        Inl e \<Rightarrow> Inl e
      | Inr m \<Rightarrow>
          if list_ex (\<lambda>x. x \<le> 0) m then Inl (ValueError ''autodetected range is not finite'')
          else
            let logm = map (log 10) m;
                N = histogram_counts logm 500;
                logMprime = histogram_edges logm 500;
                dlogMprime = np_diff logMprime;
                logMprimecents = np_cents logMprime
            in if \<not> hasattr (catalog w) ''cosmo'' then Inl (AttributeError ''cosmo'')
               else case (z_f (params w), z_i (params w)) of
                   (Some zf, Some zi) \<Rightarrow>
                     let vol = survey_volume E zi zf (fov_x (params w)) (fov_y (params w));
                         dndlogM = map (\<lambda>n. real n / vol) N;
                         dndlogMdlogM = map2 (*) dndlogM dlogMprime
                     in Inr (logMprimecents, tail_sums dndlogMdlogM)
                 | (None, _) \<Rightarrow> Inl (AttributeError ''z_f'')
                 | (_, None) \<Rightarrow> Inl (AttributeError ''z_i''))"

text \<open>
  What \<^verbatim>\<open>Mhalo_to_Lcatalog\<close> and its models return: the tuple \<^verbatim>\<open>(Lcat, params)\<close>, or
  an array alone.
\<close>

datatype catret = RetTuple pyval SimParameters | RetArray pyval

text \<open>
  \<^verbatim>\<open>abundancematch(function, coeffs, halos, params)\<close>. \<^verbatim>\<open>np.log10(np.logspace(a, b, 101))\<close>
  is \<^verbatim>\<open>np.linspace(a, b, 101)\<close>.
\<close>

definition abundancematch ::
  "env \<Rightarrow> (real list \<Rightarrow> real list \<Rightarrow> pyerror + real list) \<Rightarrow> real list \<Rightarrow> world
     \<Rightarrow> (pyerror + catret) \<times> world" where
  "abundancematch E function cs w =
     (if length cs < 2 then (Inl (IndexError ''list index out of range''), w)
      else
        let logLprime = np_linspace (cs ! (length cs - 2)) (cs ! (length cs - 1)) 100;
            dLprime = map (\<lambda>k. 10 powr (logLprime ! Suc k) - 10 powr (logLprime ! k)) [0..<100];
            logLprimecents = np_cents logLprime
        in py_bind (function (map (\<lambda>l. 10 powr l) logLprimecents) cs, w) (\<lambda>phiLarr w1.
           py_bind (np_zip (*) phiLarr dLprime, w1) (\<lambda>phiLdL w2.
             let intL = tail_sums phiLdL
             in py_bind (halomassfunction E w2, w2) (\<lambda>(logMprimecents, intnM) w3.
                py_bind (arr_attr (catalog w3) ''M'', w3) (\<lambda>m w4.
                py_bind (np_interp (map (log 10) m) logMprimecents intnM, w4) (\<lambda>intMforM w5.
                py_bind (np_interp intMforM (rev intL) (rev logLprimecents), w5) (\<lambda>LforintM w6.
                  let Lcat = Arr (map (\<lambda>l. 10 powr l / (3.826 * 10 ^ 33)) LforintM);
                      w7 = w6\<lparr>catalog := setattr (catalog w6) ''Lcat'' Lcat\<rparr>
                  in (Inr (RetTuple Lcat (params w7)), w7))))))))"

section \<open>LcatModelRegistry\<close>

text \<open>
  \<^verbatim>\<open>Mhalo_to_LLya_Chung\<close>. A luminosity is NaN where the star formation rate is
  negative (a fractional power of a negative number); those entries are set to zero.
\<close>

definition Mhalo_to_LLya_Chung :: "env \<Rightarrow> world \<Rightarrow> (pyerror + catret) \<times> world" where
  "Mhalo_to_LLya_Chung E w =
     (let sigma_sfr = 0.3
      in py_bind (if \<not> hasattr (catalog w) ''sfr'' then store_sfr E sigma_sfr False w
                  else (Inr (), w)) (\<lambda>_ w1.
         py_bind (arr_attr (catalog w1) ''redshift'', w1) (\<lambda>z w2.
         py_bind (arr_attr (catalog w2) ''sfr'', w2) (\<lambda>sfr w3.
         py_bind (np_zip (\<lambda>z sfr.
                    if sfr < 0 then 0
                    else
                      let fesc = (1 + exp (- 1.6 * z + 5)) powr (- 0.5)
                                 * (0.18 + 0.82 / (1 + 0.8 * sfr powr 0.875))\<^sup>2
                      in 1.6 * 10 ^ 42 * sfr * fesc / (3.826 * 10 ^ 33)) z sfr, w3) (\<lambda>Llya w4.
           let w5 = w4\<lparr>params := (params w4)\<lparr>catdex := sigma_sfr\<rparr>\<rparr>
           in (Inr (RetTuple (Arr Llya) (params w5)), w5))))))"

definition Mhalo_to_Lcatalog_schechter :: "env \<Rightarrow> world \<Rightarrow> (pyerror + catret) \<times> world" where
  "Mhalo_to_Lcatalog_schechter E w =
     (case catalog_coeffs (params w) of
        Absent \<Rightarrow> (Inl (AttributeError ''catalog_coeffs''), w)
      | cc \<Rightarrow>
          let cs = (case cc of Coeffs (x # xs) \<Rightarrow> x # xs
                    | _ \<Rightarrow> [0.849 * 10 ^ 43, 3.9 / 10 ^ 4, -1.8, 39, 45]);
              w1 = w\<lparr>params := (params w)\<lparr>catalog_coeffs := Coeffs cs\<rparr>\<rparr>
          in abundancematch E schechter cs w1)"

text \<open>
  \<^verbatim>\<open>Llya *= params.catalog_coeffs[0]\<close> scales in place the array that
  \<^verbatim>\<open>abundancematch\<close> stored as \<^verbatim>\<open>halos.Lcat\<close> and returned.
\<close>

definition Mhalo_to_Lcatalog_schechter_amp :: "env \<Rightarrow> world \<Rightarrow> (pyerror + catret) \<times> world" where
  "Mhalo_to_Lcatalog_schechter_amp E w =
     (case catalog_coeffs (params w) of
        Absent \<Rightarrow> (Inl (AttributeError ''catalog_coeffs''), w)
      | cc \<Rightarrow>
          let cs = (case cc of Coeffs (x # xs) \<Rightarrow> x # xs
                    | _ \<Rightarrow> [1, 0.849 * 10 ^ 43, 3.9 / 10 ^ 4, -1.8, 39, 45]);
              w1 = w\<lparr>params := (params w)\<lparr>catalog_coeffs := Coeffs cs\<rparr>\<rparr>
          in py_bind (abundancematch E schechter (tl cs) w1) (\<lambda>r w2.
               case r of
                 RetTuple (Arr Llya) p \<Rightarrow>
                   let scaled = Arr (map (\<lambda>l. l * hd cs) Llya);
                       w3 = w2\<lparr>catalog := setattr (catalog w2) ''Lcat'' scaled\<rparr>
                   in (Inr (RetTuple scaled (params w3)), w3)
               | _ \<Rightarrow> (Inl (TypeError ''cannot unpack''), w2)))"

text \<open>
  The two test models: a missing or \<^verbatim>\<open>None\<close> \<^verbatim>\<open>params.catalog_coeffs\<close> selects the
  defaults; the coefficients are recorded as \<^verbatim>\<open>halos.catalog_coeffs\<close>.
  \<^verbatim>\<open>Mhalo_to_Lcatalog_test1\<close> ends with \<^verbatim>\<open>return Lcatalog, params\<close> (line 569),
  \<^verbatim>\<open>Mhalo_to_Lcatalog_test2\<close> with \<^verbatim>\<open>return Lcatalog\<close> (line 602).
\<close>

definition Mhalo_to_Lcatalog_test1 :: "env \<Rightarrow> world \<Rightarrow> (pyerror + catret) \<times> world" where
  "Mhalo_to_Lcatalog_test1 E w =
     py_bind ((case catalog_coeffs (params w) of
                 Coeffs xs \<Rightarrow> if length xs = 5 then Inr xs
                              else Inl (ValueError ''wrong number of values to unpack'')
               | _ \<Rightarrow> Inr [-2, -0.5, 11, 13, 0.5]), w) (\<lambda>c w0.
       let A = c ! 0; B = c ! 1; logC = c ! 2; logM = c ! 3; sigma = c ! 4;
           w1 = w0\<lparr>catalog := setattr (catalog w0) ''catalog_coeffs'' (Tup c)\<rparr>
       in py_bind (arr_attr (catalog w1) ''M'', w1) (\<lambda>Mh w2.
            let C = 10 powr logC;
                M = 10 powr logM;
                Lcatalog = map (\<lambda>mh. 4.9 / 10 ^ 5 * (C / ((mh / M) powr A + (mh / M) powr B))) Mh;
                w3 = w2\<lparr>params := (params w2)\<lparr>catdex := sigma\<rparr>\<rparr>
            in (Inr (RetTuple (Arr Lcatalog) (params w3)), w3)))"

definition Mhalo_to_Lcatalog_test2 :: "env \<Rightarrow> world \<Rightarrow> (pyerror + catret) \<times> world" where
  "Mhalo_to_Lcatalog_test2 E w =
     py_bind ((case catalog_coeffs (params w) of
                 Coeffs xs \<Rightarrow> if length xs = 5 then Inr xs
                              else Inl (ValueError ''wrong number of values to unpack'')
               | _ \<Rightarrow> Inr [0.5, 2, 11, 12, 0.5]), w) (\<lambda>c w0.
       let A = c ! 0; B = c ! 1; logC = c ! 2; logM = c ! 3; sigma = c ! 4;
           w1 = w0\<lparr>catalog := setattr (catalog w0) ''catalog_coeffs'' (Tup c)\<rparr>
       in py_bind (arr_attr (catalog w1) ''M'', w1) (\<lambda>Mh w2.
            let C = 10 powr logC;
                M = 10 powr logM;
                Lcatalog = map (\<lambda>mh. 4.9 / 10 ^ 5 * (C / ((mh / M) powr A + (mh / M) powr B))) Mh;
                w3 = w2\<lparr>params := (params w2)\<lparr>catdex := sigma\<rparr>\<rparr>
            in (Inr (RetArray (Arr Lcatalog)), w3)))"

definition Lcat_dict :: "(string \<times> (env \<Rightarrow> world \<Rightarrow> (pyerror + catret) \<times> world)) list" where
  "Lcat_dict =
     [(''lya_chung'', Mhalo_to_LLya_Chung),
      (''schechter'', Mhalo_to_Lcatalog_schechter),
      (''schechter_amp'', Mhalo_to_Lcatalog_schechter_amp),
      (''default'', Mhalo_to_Lcatalog_test1),
      (''test2'', Mhalo_to_Lcatalog_test2)]"

text \<open>
  \<^verbatim>\<open>Mhalo_to_Lcatalog(halos, params)\<close>. A model name that is \<^verbatim>\<open>None\<close> is in no
  dictionary and cannot be concatenated into the message.
\<close>

definition Mhalo_to_Lcatalog :: "env \<Rightarrow> world \<Rightarrow> (pyerror + catret) \<times> world" where
  "Mhalo_to_Lcatalog E w =
     (case catalog_model (params w) of
        None \<Rightarrow> (Inl (TypeError ''can only concatenate str (not NoneType) to str''), w)
      | Some name \<Rightarrow>
          (case map_of Lcat_dict name of
             Some f \<Rightarrow> f E w
           | None \<Rightarrow>
               (Inl (SystemExit (nl @ nl @ tab @ ''Your catalog model, '' @ name
                                 @ '', does not seem to exist'' @ nl @ tab @ tab
                                 @ ''Please check src/halos_to_luminosity.py to add it'' @ nl @ nl)), w)))"

section \<open>LuminosityPipeline\<close>

text \<open>
  \<^verbatim>\<open>Mhalo_to_Ls(halos, params)\<close>. Line 63 unpacks what the catalog model returns into
  two targets: a tuple fits; an array fits only when it has exactly two entries, and then
  the name \<^verbatim>\<open>params\<close> is bound to a float, which has no attribute
  \<^verbatim>\<open>save_scatterless_lums\<close>. (\<^verbatim>\<open>copy\<close> is taken to come from \<^verbatim>\<open>tools\<close>.)
\<close>

definition Mhalo_to_Ls :: "env \<Rightarrow> world \<Rightarrow> (pyerror + unit) \<times> world" where
  "Mhalo_to_Ls E w =
     (let w0 = w\<lparr>params := (params w)\<lparr>lum_uncert_seed :=
                  (case lum_uncert_seed (params w) of None \<Rightarrow> Some 12345 | Some s \<Rightarrow> Some s)\<rparr>\<rparr>
      in py_bind (Mhalo_to_Lco E False w0) (\<lambda>lco w1.
         let w2 = w1\<lparr>catalog := setattr (catalog w1) ''Lco'' lco\<rparr>;
             seed = the (lum_uncert_seed (params w2))
         in if catalog_model (params w2) \<noteq> None \<and> catalog_model (params w2) \<noteq> Some []
            then
              py_bind (Mhalo_to_Lcatalog E w2) (\<lambda>r w3.
                case r of
                  RetTuple lcat p \<Rightarrow>
                    let w4 = w3\<lparr>catalog := setattr (catalog w3) ''Lcat'' lcat\<rparr>;
                        w5 = (if save_scatterless_lums p = Some True
                              then w4\<lparr>catalog :=
                                     setattr (setattr (catalog w4) ''scatterless_Lco'' lco)
                                       ''scatterless_Lcat'' lcat\<rparr>
                              else w4)
                    in (case add_co_tracer_dependant_scatter E (catalog w5)
                               (rho p) (codex p) (catdex p) seed of
                          (None, h) \<Rightarrow> (Inr (), w5\<lparr>catalog := h\<rparr>)
                        | (Some e, h) \<Rightarrow> (Inl e, w5\<lparr>catalog := h\<rparr>))
                | RetArray (Arr xs) \<Rightarrow>
                    if length xs = 2
                    then (Inl (AttributeError ''save_scatterless_lums''),
                          w3\<lparr>catalog := setattr (catalog w3) ''Lcat'' (NpNum (xs ! 0))\<rparr>)
                    else (Inl (ValueError ''wrong number of values to unpack''), w3)
                | RetArray v \<Rightarrow> (Inl (TypeError ''cannot unpack''), w3))
            else
              let w3 = (if save_scatterless_lums (params w2) = Some True
                        then w2\<lparr>catalog := setattr (catalog w2) ''scatterless_Lco'' lco\<rparr>
                        else w2)
              in py_bind (add_log_normal_scatter E lco (Dex (codex (params w3))) seed, w3) (\<lambda>lco' w4.
                   (Inr (), w4\<lparr>catalog := setattr (catalog w4) ''Lco'' lco'\<rparr>))))"

section \<open>HaloCatalogOps\<close>

text \<open>
  The in-place loop of \<^verbatim>\<open>indexcut\<close> and \<^verbatim>\<open>attrcut_subset\<close> (lines 350-356 and
  406-413) over the names of \<^verbatim>\<open>dir(self)\<close>: an attribute that cannot be indexed is
  left alone (the TypeError is caught), any other exception ends the loop with the
  attributes before it already replaced, and \<^verbatim>\<open>self.nhalo = len(self.M)\<close> closes
  every round.
\<close>

fun cut_in_place :: "string list \<Rightarrow> nat list \<Rightarrow> HaloCatalog \<Rightarrow> pyerror option \<times> HaloCatalog" where
  "cut_in_place [] idx h = (None, h)"
| "cut_in_place (i # names) idx h =
     (case getattr h i of
        None \<Rightarrow> (Some (AttributeError i), h)
      | Some v \<Rightarrow>
          (case (case fancy_index v idx of
                   Inr v' \<Rightarrow> Inr (setattr h i v')
                 | Inl (TypeError m) \<Rightarrow> Inr h
                 | Inl e \<Rightarrow> Inl e) of
             Inl e \<Rightarrow> (Some e, h)
           | Inr h1 \<Rightarrow>
               (case py_len (getattr h1 ''M'') ''M'' of
                  Inl e \<Rightarrow> (Some e, h1)
                | Inr n \<Rightarrow> cut_in_place names idx (setattr h1 ''nhalo'' (PyInt (int n))))))"

text \<open>
  The loop of the copying branch (lines 339-345 and 394-401): the attributes are read
  from \<^verbatim>\<open>self\<close> and written to the copy, whose \<^verbatim>\<open>nhalo\<close> is set after the loop.
\<close>

fun cut_copy :: "string list \<Rightarrow> nat list \<Rightarrow> HaloCatalog \<Rightarrow> HaloCatalog \<Rightarrow> pyerror + HaloCatalog" where
  "cut_copy [] idx self sub =
     (case py_len (getattr sub ''M'') ''M'' of
        Inl e \<Rightarrow> Inl e
      | Inr n \<Rightarrow> Inr (setattr sub ''nhalo'' (PyInt (int n))))"
| "cut_copy (i # names) idx self sub =
     (case getattr self i of
        None \<Rightarrow> Inl (AttributeError i)
      | Some v \<Rightarrow>
          (case fancy_index v idx of
             Inr v' \<Rightarrow> cut_copy names idx self (setattr sub i v')
           | Inl (TypeError m) \<Rightarrow> cut_copy names idx self sub
           | Inl e \<Rightarrow> Inl e))"

text \<open>
  \<^verbatim>\<open>indexcut(idx, in_place)\<close>: the value returned (the copy, or \<^verbatim>\<open>None\<close>) or the
  exception, and \<^verbatim>\<open>self\<close> afterwards.
\<close>

definition indexcut :: "nat list \<Rightarrow> bool \<Rightarrow> HaloCatalog \<Rightarrow> (pyerror + HaloCatalog option) \<times> HaloCatalog" where
  "indexcut idx in_place self =
     (if \<not> in_place then
        (case cut_copy (dir_public self) idx self self of
           Inl e \<Rightarrow> (Inl e, self)
         | Inr sub \<Rightarrow> (Inr (Some sub), self))
      else
        (case cut_in_place (dir_public self) idx self of
           (Some e, h) \<Rightarrow> (Inl e, h)
         | (None, h) \<Rightarrow> (Inr None, h)))"

text \<open>
  \<^verbatim>\<open>attrcut_subset(attr, minval, maxval, params, in_place)\<close> keeps the positions with
  \<open>minval < a \<le> maxval\<close> and repeats the loops of \<^verbatim>\<open>indexcut\<close>.
\<close>

definition attrcut_subset ::
  "string \<Rightarrow> real \<Rightarrow> real \<Rightarrow> SimParameters \<Rightarrow> bool \<Rightarrow> HaloCatalog
     \<Rightarrow> (pyerror + HaloCatalog option) \<times> HaloCatalog" where
  "attrcut_subset attr minval maxval p in_place self =
     (case arr_attr self attr of
        Inl e \<Rightarrow> (Inl e, self)
      | Inr a \<Rightarrow>
          let keepidx = np_where (map (\<lambda>x. x > minval \<and> x \<le> maxval) a)
          in if \<not> in_place then
               (case cut_copy (dir_public self) keepidx self self of
                  Inl e \<Rightarrow> (Inl e, self)
                | Inr sub \<Rightarrow> (Inr (Some sub), self))
             else
               (case cut_in_place (dir_public self) keepidx self of
                  (Some e, h) \<Rightarrow> (Inl e, h)
                | (None, h) \<Rightarrow> (Inr None, h)))"

text \<open>
  A call of \<^verbatim>\<open>attrcut_subset\<close> as Python binds it: the parameter \<^verbatim>\<open>params\<close> has no
  default, so a call that does not pass it raises TypeError before the body runs.
\<close>

definition call_attrcut_subset ::
  "string \<Rightarrow> real \<Rightarrow> real \<Rightarrow> SimParameters option \<Rightarrow> bool \<Rightarrow> HaloCatalog
     \<Rightarrow> (pyerror + HaloCatalog option) \<times> HaloCatalog" where
  "call_attrcut_subset attr minval maxval params_arg in_place self =
     (case params_arg of
        None \<Rightarrow> (Inl (TypeError ''attrcut_subset() missing 1 required positional argument: params''), self)
      | Some p \<Rightarrow> attrcut_subset attr minval maxval p in_place self)"

text \<open>
  \<^verbatim>\<open>masscut_subset(min_mass, max_mass, in_place)\<close> (lines 425-428): both calls pass
  \<^verbatim>\<open>'M'\<close>, the two bounds and at most \<^verbatim>\<open>in_place\<close>.
\<close>

definition masscut_subset ::
  "real \<Rightarrow> real \<Rightarrow> bool \<Rightarrow> HaloCatalog \<Rightarrow> (pyerror + HaloCatalog option) \<times> HaloCatalog" where
  "masscut_subset minmass maxmass in_place self =
     (if in_place then
        (case call_attrcut_subset ''M'' minmass maxmass None True self of
           (Inl e, h) \<Rightarrow> (Inl e, h)
         | (Inr r, h) \<Rightarrow> (Inr None, h))
      else call_attrcut_subset ''M'' minmass maxmass None False self)"

text \<open>
  \<^verbatim>\<open>cull(params)\<close>: the result is the exception if any, the catalog and the parameter
  object afterwards.
\<close>

definition cull :: "env \<Rightarrow> SimParameters \<Rightarrow> HaloCatalog \<Rightarrow> pyerror option \<times> HaloCatalog \<times> SimParameters" where
  "cull E p self =
     (let zi0 = freq_to_z E (nu_rest p) (nu_i p);
          zf0 = freq_to_z E (nu_rest p) (nu_f p);
          zi = (if zi0 > zf0 then zf0 else zi0);
          zf = (if zi0 > zf0 then zi0 else zf0);
          p1 = p\<lparr>z_i := Some zi, z_f := Some zf\<rparr>
      in case arr_attr self ''M'' of Inl e \<Rightarrow> (Some e, self, p1) | Inr m \<Rightarrow>
        (case arr_attr self ''redshift'' of Inl e \<Rightarrow> (Some e, self, p1) | Inr z \<Rightarrow>
        (case np_zip (\<and>) (map (\<lambda>x. x > min_mass p1 \<and> x < mass_cutoff p1) m)
                          (map (\<lambda>x. x \<ge> zi \<and> x \<le> zf) z) of
           Inl e \<Rightarrow> (Some e, self, p1) | Inr g1 \<Rightarrow>
        (case arr_attr self ''ra'' of Inl e \<Rightarrow> (Some e, self, p1) | Inr ra \<Rightarrow>
        (case np_zip (\<and>) g1 (map (\<lambda>x. \<bar>x\<bar> \<le> fov_x p1 / 2) ra) of
           Inl e \<Rightarrow> (Some e, self, p1) | Inr g2 \<Rightarrow>
        (case arr_attr self ''dec'' of Inl e \<Rightarrow> (Some e, self, p1) | Inr dec \<Rightarrow>
        (case np_zip (\<and>) g2 (map (\<lambda>x. \<bar>x\<bar> \<le> fov_y p1 / 2) dec) of
           Inl e \<Rightarrow> (Some e, self, p1) | Inr goodidx \<Rightarrow>
        (case indexcut (np_where goodidx) True self of
           (Inl e, h1) \<Rightarrow> (Some e, h1, p1)
         | (Inr r, h1) \<Rightarrow>
        (case arr_attr h1 ''M'' of Inl e \<Rightarrow> (Some e, h1, p1) | Inr m1 \<Rightarrow>
           (let sortidx = rev (np_argsort m1)
            in case indexcut sortidx True h1 of
                 (Inl e, h2) \<Rightarrow> (Some e, h2, p1)
               | (Inr r, h2) \<Rightarrow> (None, h2, p1)))))))))))"





section \<open>Predicates of the statements\<close>

text \<open>
  A catalog whose per-halo arrays all have \<open>n\<close> entries: every attribute that the cut
  loops visit is an array of length \<open>n\<close> or a value they leave alone (a numpy scalar
  would raise IndexError).
\<close>

definition value_ok :: "nat \<Rightarrow> pyval \<Rightarrow> bool" where
  "value_ok n v = (case v of Arr xs \<Rightarrow> length xs = n | NpNum x \<Rightarrow> False | _ \<Rightarrow> True)"

definition per_halo_arrays :: "HaloCatalog \<Rightarrow> nat \<Rightarrow> bool" where
  "per_halo_arrays h n = list_all (\<lambda>(k, v). take 1 k = ''_'' \<or> value_ok n v) h"

text \<open>
  The redshift window of \<^verbatim>\<open>cull\<close> with its bounds in order, and the condition under
  which \<^verbatim>\<open>cull\<close> keeps a halo (lines 123-128).
\<close>

definition z_window :: "env \<Rightarrow> SimParameters \<Rightarrow> real \<times> real" where
  "z_window E p =
     (min (freq_to_z E (nu_rest p) (nu_i p)) (freq_to_z E (nu_rest p) (nu_f p)),
      max (freq_to_z E (nu_rest p) (nu_i p)) (freq_to_z E (nu_rest p) (nu_f p)))"

definition cull_keeps :: "env \<Rightarrow> SimParameters \<Rightarrow> real \<Rightarrow> real \<Rightarrow> real \<Rightarrow> real \<Rightarrow> bool" where
  "cull_keeps E p mass z ra dec =
     (min_mass p < mass \<and> mass < mass_cutoff p
      \<and> fst (z_window E p) \<le> z \<and> z \<le> snd (z_window E p)
      \<and> \<bar>ra\<bar> \<le> fov_x p / 2 \<and> \<bar>dec\<bar> \<le> fov_y p / 2)"

text \<open>What an in-place cut makes of one attribute value, and when indexing it cannot fail.\<close>

definition cut_val :: "nat list \<Rightarrow> pyval \<Rightarrow> pyval" where
  "cut_val idx v = (case fancy_index v idx of Inr v' \<Rightarrow> v' | Inl e \<Rightarrow> v)"

definition indexable :: "nat list \<Rightarrow> pyval \<Rightarrow> bool" where
  "indexable idx v = (case v of Arr xs \<Rightarrow> list_all (\<lambda>i. i < length xs) idx | NpNum x \<Rightarrow> False | _ \<Rightarrow> True)"

definition sem_ok :: "HaloCatalog \<Rightarrow> nat \<Rightarrow> bool" where
  "sem_ok h n = (\<forall>k v. take 1 k \<noteq> ''_'' \<and> getattr h k = Some v \<longrightarrow> value_ok n v)"



text \<open>A list in non-increasing order.\<close>

definition descending :: "real list \<Rightarrow> bool" where
  "descending xs = sorted_wrt (\<lambda>a b. b \<le> a) xs"

section \<open>Concrete inputs\<close>

text \<open>
  An environment, a parameter object and a loaded catalog of three halos, on which the
  statements below are instantiated.
\<close>

definition example_env :: env where
  "example_env =
     \<lparr>standard_normal = (\<lambda>s i. 0),
      multivariate_normal = (\<lambda>s c n i. (0, 0)),
      rng_choice = (\<lambda>s n k p. [0..<k]),
      get_sfr_table = (\<lambda>b m z. 1),
      freq_to_z = (\<lambda>nu_rest nu. nu_rest / nu - 1),
      comoving_volume = (\<lambda>z. z)\<rparr>"

definition example_params :: SimParameters where
  "example_params =
     \<lparr>model = ''fiuducial'', co_model_coeffs = CNone, catalog_model = None,
      catalog_coeffs = PyNone, codex = 0, catdex = 0, rho = 0,
      lum_uncert_seed = None, save_scatterless_lums = None,
      min_mass = 10, mass_cutoff = 1000, nu_rest = 120, nu_i = 40, nu_f = 30,
      z_i = None, z_f = None, fov_x = 4, fov_y = 4,
      lcat_cutoff = 15, goal_nobj = 2, obs_weight = ''linear'', vcat_seed = 7,
      verbose = False\<rparr>"

definition example_halos :: HaloCatalog where
  "example_halos =
     [(''M'', Arr [100, 5, 300]),
      (''cosmo'', Obj),
      (''dec'', Arr [0, 0, 1]),
      (''nhalo'', PyInt 3),
      (''ra'', Arr [1, 0, - 1]),
      (''redshift'', Arr [2.5, 2.5, 2.2])]"

definition example_world :: world where
  "example_world = \<lparr>catalog = example_halos, params = example_params, sfr_interp_tab = None\<rparr>"




text \<open>
  A state on which \<^verbatim>\<open>cull\<close> has stored the redshift window, and the default
  coefficients of \<^verbatim>\<open>Mhalo_to_Lcatalog_schechter\<close> (line 516).
\<close>

definition matched_world :: world where
  "matched_world = example_world\<lparr>params := example_params\<lparr>z_i := Some 2, z_f := Some 3\<rparr>\<rparr>"

definition ouchi_coeffs :: "real list" where
  "ouchi_coeffs = [0.849 * 10 ^ 43, 3.9 / 10 ^ 4, -1.8, 39, 45]"

section \<open>Scatter\<close>

text \<open>
  C7. For every array, every seed and every scatter width \<open>dex \<le> 0\<close>,
  \<^verbatim>\<open>add_log_normal_scatter\<close> returns its input unchanged: no exception, no draw.
\<close>

theorem scatter_identity_nonpositive_dex:
  "dex \<le> 0 \<Longrightarrow> add_log_normal_scatter E data (Dex dex) seed = Inr data"
  by (simp add: add_log_normal_scatter_def)

theorem scatter_identity_nonpositive_dex_witness:
  "(- 1 :: real) \<le> 0
   \<and> add_log_normal_scatter example_env (Arr [3, 0, 7]) (Dex (- 1)) 12345 = Inr (Arr [3, 0, 7])"
  using scatter_identity_nonpositive_dex [of "- 1" example_env "Arr [3, 0, 7]" 12345] by simp

text \<open>
  C4. The claim is that the correlated scatter uses the log-space sigma and mean of the
  independent scatter for the same width. At a width of 1 dex the correlated scatter
  multiplies by 2.30285 (lines 653 and 657) where the independent one multiplies by
  2.302585 (line 614, whose comment gives ln 10 = 2.302585); sigma and mean differ, and
  the covariance stored on the catalog shows the constant.
\<close>

theorem joint_scatter_sigma_constant:
  "joint_sigma 1 = 2.30285 \<and> lognormal_sigma 1 = 2.302585
   \<and> joint_sigma 1 \<noteq> lognormal_sigma 1
   \<and> joint_mu (joint_sigma 1) \<noteq> lognormal_mu (lognormal_sigma 1)
   \<and> getattr (snd (add_co_tracer_dependant_scatter example_env
                      [(''Lcat'', Arr [1]), (''Lco'', Arr [1])] 0 1 1 12345)) ''cov''
       = Some (Mat [[2.30285\<^sup>2, 0], [0, 2.30285\<^sup>2]])"
  by (simp add: joint_sigma_def lognormal_sigma_def joint_mu_def lognormal_mu_def
      add_co_tracer_dependant_scatter_def joint_cov_def setattr_def getattr_def
      example_env_def np_zip_def Let_def power2_eq_square)

section \<open>Model dispatch\<close>

text \<open>
  C1. A model name that is no key of the dictionary of \<^verbatim>\<open>Mhalo_to_Lco\<close>, and likewise a
  catalog model name that is no key of the dictionary of \<^verbatim>\<open>Mhalo_to_Lcatalog\<close>, ends
  the call with \<^verbatim>\<open>SystemExit\<close>; the message contains the name, and the catalog, the
  parameters and the table cache are what they were before the call.
\<close>

theorem unknown_model_fatal:
  "(name \<notin> set (map fst Lco_dict) \<and> model (params w) = name \<longrightarrow>
      (\<exists>a b. Mhalo_to_Lco E scatter w = (Inl (SystemExit (a @ name @ b)), w)))
   \<and> (name \<notin> set (map fst Lcat_dict) \<and> catalog_model (params w) = Some name \<longrightarrow>
      (\<exists>a b. Mhalo_to_Lcatalog E w = (Inl (SystemExit (a @ name @ b)), w)))"
proof (intro conjI impI)
  assume a: "name \<notin> set (map fst Lco_dict) \<and> model (params w) = name"
  then have "map_of Lco_dict (model (params w)) = None"
    by (simp add: map_of_eq_None_iff)
  then have "Mhalo_to_Lco E scatter w =
    (Inl (SystemExit ((nl @ nl @ tab @ ''Your model, '') @ name
        @ ('', does not seem to exist'' @ nl @ tab @ tab
           @ ''Please check src/halos_to_luminosity.py to add it'' @ nl @ nl))), w)"
    using a by (simp add: Mhalo_to_Lco_def)
  then show "\<exists>a b. Mhalo_to_Lco E scatter w = (Inl (SystemExit (a @ name @ b)), w)"
    by blast
next
  assume a: "name \<notin> set (map fst Lcat_dict) \<and> catalog_model (params w) = Some name"
  then have "map_of Lcat_dict name = None"
    by (simp add: map_of_eq_None_iff)
  then have "Mhalo_to_Lcatalog E w =
    (Inl (SystemExit ((nl @ nl @ tab @ ''Your catalog model, '') @ name
        @ ('', does not seem to exist'' @ nl @ tab @ tab
           @ ''Please check src/halos_to_luminosity.py to add it'' @ nl @ nl))), w)"
    using a by (simp add: Mhalo_to_Lcatalog_def)
  then show "\<exists>a b. Mhalo_to_Lcatalog E w = (Inl (SystemExit (a @ name @ b)), w)"
    by blast
qed

theorem unknown_model_fatal_witness:
  "''CO_2'' \<notin> set (map fst Lco_dict)
   \<and> model (params (example_world\<lparr>params := example_params\<lparr>model := ''CO_2'', catalog_model := Some ''CO_2''\<rparr>\<rparr>)) = ''CO_2''
   \<and> (\<exists>a b. Mhalo_to_Lco example_env True
               (example_world\<lparr>params := example_params\<lparr>model := ''CO_2'', catalog_model := Some ''CO_2''\<rparr>\<rparr>)
             = (Inl (SystemExit (a @ ''CO_2'' @ b)),
                example_world\<lparr>params := example_params\<lparr>model := ''CO_2'', catalog_model := Some ''CO_2''\<rparr>\<rparr>))
   \<and> ''CO_2'' \<notin> set (map fst Lcat_dict)
   \<and> (\<exists>a b. Mhalo_to_Lcatalog example_env
               (example_world\<lparr>params := example_params\<lparr>model := ''CO_2'', catalog_model := Some ''CO_2''\<rparr>\<rparr>)
             = (Inl (SystemExit (a @ ''CO_2'' @ b)),
                example_world\<lparr>params := example_params\<lparr>model := ''CO_2'', catalog_model := Some ''CO_2''\<rparr>\<rparr>))"
proof -
  have k1: "''CO_2'' \<notin> set (map fst Lco_dict)" by (simp add: Lco_dict_def)
  have k2: "''CO_2'' \<notin> set (map fst Lcat_dict)" by (simp add: Lcat_dict_def)
  show ?thesis
    using unknown_model_fatal [of "''CO_2''"
        "example_world\<lparr>params := example_params\<lparr>model := ''CO_2'', catalog_model := Some ''CO_2''\<rparr>\<rparr>"
        example_env True] k1 k2
    by simp
qed





text \<open>
  C3. The claim is that every registered catalog model returns the pair
  \<^verbatim>\<open>(Lcat, params)\<close> that line 63 unpacks. On a catalog of three halos the model
  \<^verbatim>\<open>test2\<close> returns the array alone, where \<^verbatim>\<open>default\<close> returns the pair, and
  \<^verbatim>\<open>Mhalo_to_Ls\<close> fails at the unpacking.
\<close>

theorem test2_returns_array_alone:
  "(\<exists>L. fst (Mhalo_to_Lcatalog example_env
              (example_world\<lparr>params := example_params\<lparr>catalog_model := Some ''test2''\<rparr>\<rparr>))
          = Inr (RetArray (Arr L)) \<and> length L = 3)
   \<and> (\<exists>L p. fst (Mhalo_to_Lcatalog example_env
              (example_world\<lparr>params := example_params\<lparr>catalog_model := Some ''default''\<rparr>\<rparr>))
          = Inr (RetTuple (Arr L) p) \<and> length L = 3)
   \<and> fst (Mhalo_to_Ls example_env
              (example_world\<lparr>params := example_params\<lparr>catalog_model := Some ''test2''\<rparr>\<rparr>))
       = Inl (ValueError ''wrong number of values to unpack'')"
  by (simp add: Mhalo_to_Lcatalog_def Lcat_dict_def Mhalo_to_Lcatalog_test2_def
      Mhalo_to_Lcatalog_test1_def Mhalo_to_Ls_def Mhalo_to_Lco_def Lco_dict_def
      Mhalo_to_Lco_fiuducial_def py_bind_def arr_attr_def getattr_def setattr_def
      example_world_def example_halos_def example_params_def Let_def)

section \<open>Mass cut\<close>

text \<open>
  C10. \<^verbatim>\<open>masscut_subset\<close>, in place or copying, calls \<^verbatim>\<open>attrcut_subset\<close> without the
  argument \<^verbatim>\<open>params\<close>: for every catalog and every pair of bounds the call raises
  TypeError, and the catalog is what it was.
\<close>

theorem masscut_subset_TypeError:
  "\<exists>msg. masscut_subset minmass maxmass in_place self = (Inl (TypeError msg), self)"
  by (simp add: masscut_subset_def call_attrcut_subset_def)

section \<open>The cached star formation rate\<close>

lemma getattr_setattr:
  "getattr (setattr h k v) k' = (if k' = k then Some v else getattr h k')"
  by (simp add: getattr_def setattr_def update_conv')




















section \<open>Cuts of the catalog\<close>

lemma cut_step:
  "indexable idx v \<Longrightarrow>
   (case fancy_index v idx of Inr v' \<Rightarrow> Inr (setattr h i v') | Inl (TypeError m) \<Rightarrow> Inr h | Inl e \<Rightarrow> Inl e)
     = (case v of Arr xs \<Rightarrow> Inr (setattr h i (cut_val idx v)) | _ \<Rightarrow> Inr h)"
  by (cases v) (simp_all add: indexable_def cut_val_def)

lemma cut_val_not_Arr: "\<forall>xs. v \<noteq> Arr xs \<Longrightarrow> cut_val idx v = v"
  by (cases v) (auto simp: cut_val_def)

lemma cut_val_Arr: "list_all (\<lambda>i. i < length xs) idx \<Longrightarrow> cut_val idx (Arr xs) = Arr (map (\<lambda>i. xs ! i) idx)"
  by (simp add: cut_val_def)

lemma cut_in_place_spec:
  assumes "distinct names"
    and "\<forall>k\<in>set names. \<exists>v. getattr h k = Some v \<and> indexable idx v"
    and "getattr h ''M'' = Some (Arr m)"
  shows "\<exists>h'. cut_in_place names idx h = (None, h')
           \<and> (\<forall>k. k \<noteq> ''nhalo'' \<longrightarrow>
                 getattr h' k = (if k \<in> set names then map_option (cut_val idx) (getattr h k)
                                 else getattr h k))
           \<and> (names \<noteq> [] \<longrightarrow>
                 (\<exists>m'. getattr h' ''M'' = Some (Arr m')
                       \<and> getattr h' ''nhalo'' = Some (PyInt (int (length m')))))"
  using assms
proof (induction names arbitrary: h m)
  case Nil
  then show ?case by simp
next
  case (Cons i names)
  from Cons.prems(2) obtain v where v: "getattr h i = Some v" "indexable idx v" by auto
  define h1 where "h1 = (case v of Arr xs \<Rightarrow> setattr h i (cut_val idx v) | _ \<Rightarrow> h)"
  have g1: "getattr h1 k = (if k = i then Some (cut_val idx v) else getattr h k)" for k
    using v(1) by (cases v) (simp_all add: h1_def getattr_setattr cut_val_not_Arr)
  have step: "(case fancy_index v idx of Inr v' \<Rightarrow> Inr (setattr h i v')
                | Inl (TypeError m) \<Rightarrow> Inr h | Inl e \<Rightarrow> Inl e) = (Inr h1 :: pyerror + HaloCatalog)"
    using cut_step [OF v(2), of h i] by (cases v) (simp_all add: h1_def)
  obtain m1 where m1: "getattr h1 ''M'' = Some (Arr m1)"
  proof (cases "i = ''M''")
    case True
    with v Cons.prems(3) have "v = Arr m" by simp
    with v(2) have "cut_val idx v = Arr (map (\<lambda>i. m ! i) idx)"
      by (simp add: indexable_def cut_val_Arr)
    with True g1 that show ?thesis by simp
  next
    case False
    with g1 Cons.prems(3) that show ?thesis by simp
  qed
  define h2 where "h2 = setattr h1 ''nhalo'' (PyInt (int (length m1)))"
  have g2: "getattr h2 k = (if k = ''nhalo'' then Some (PyInt (int (length m1))) else getattr h1 k)" for k
    by (simp add: h2_def getattr_setattr)
  have run: "cut_in_place (i # names) idx h = cut_in_place names idx h2"
    using v(1) step m1 by (simp add: h2_def)
  have d: "distinct names" and ni: "i \<notin> set names" using Cons.prems(1) by auto
  have pre: "\<forall>k\<in>set names. \<exists>v. getattr h2 k = Some v \<and> indexable idx v"
  proof
    fix k assume k: "k \<in> set names"
    with ni have ki: "k \<noteq> i" by auto
    from Cons.prems(2) k obtain u where "getattr h k = Some u" "indexable idx u" by auto
    then show "\<exists>v. getattr h2 k = Some v \<and> indexable idx v"
      using ki by (cases "k = ''nhalo''") (simp_all add: g2 g1 indexable_def)
  qed
  have m2: "getattr h2 ''M'' = Some (Arr m1)" using m1 by (simp add: g2)
  from Cons.IH [OF d pre m2] obtain h' where h':
    "cut_in_place names idx h2 = (None, h')"
    "\<forall>k. k \<noteq> ''nhalo'' \<longrightarrow>
       getattr h' k = (if k \<in> set names then map_option (cut_val idx) (getattr h2 k) else getattr h2 k)"
    "names \<noteq> [] \<longrightarrow> (\<exists>m'. getattr h' ''M'' = Some (Arr m')
                       \<and> getattr h' ''nhalo'' = Some (PyInt (int (length m'))))"
    by blast
  have a: "\<forall>k. k \<noteq> ''nhalo'' \<longrightarrow>
       getattr h' k = (if k \<in> set (i # names) then map_option (cut_val idx) (getattr h k) else getattr h k)"
    using h'(2) ni v(1) by (auto simp: g2 g1)
  have b: "\<exists>m'. getattr h' ''M'' = Some (Arr m') \<and> getattr h' ''nhalo'' = Some (PyInt (int (length m')))"
  proof (cases "names = []")
    case True
    with h'(1) have "h' = h2" by simp
    then show ?thesis using m2 by (simp add: g2)
  next
    case False
    with h'(3) show ?thesis by simp
  qed
  show ?case using run h'(1) a b by simp
qed

lemma sem_okD: "sem_ok h n \<Longrightarrow> take 1 k \<noteq> ''_'' \<Longrightarrow> getattr h k = Some v \<Longrightarrow> value_ok n v"
  by (simp add: sem_ok_def)

lemma per_halo_arrays_sem: "per_halo_arrays h n \<Longrightarrow> sem_ok h n"
  unfolding sem_ok_def
proof (intro allI impI)
  fix k v assume p: "per_halo_arrays h n" and a: "take 1 k \<noteq> ''_'' \<and> getattr h k = Some v"
  show "value_ok n v"
  proof (cases "map_of h k")
    case None
    with a have "v = Obj" by (simp add: getattr_def split: if_splits)
    then show ?thesis by (simp add: value_ok_def)
  next
    case (Some u)
    with a have "u = v" by (simp add: getattr_def)
    with Some have "(k, v) \<in> set h" by (simp add: map_of_SomeD)
    with p a show ?thesis by (auto simp: per_halo_arrays_def list_all_iff)
  qed
qed

lemma dir_public_distinct: "distinct (dir_public h)"
  by (simp add: dir_public_def)

lemma dir_public_iff: "k \<in> set (dir_public h) \<longleftrightarrow> take 1 k \<noteq> ''_'' \<and> getattr h k \<noteq> None"
proof -
  have "map_of h k \<noteq> None \<longleftrightarrow> k \<in> set (map fst h)"
    by (simp add: map_of_eq_None_iff)
  then have "getattr h k \<noteq> None \<longleftrightarrow> k \<in> set class_attrs \<or> k \<in> set (map fst h)"
    by (cases "map_of h k") (simp_all add: getattr_def)
  then show ?thesis by (auto simp: dir_public_def)
qed

lemma dir_public_nonempty: "dir_public h \<noteq> []"
proof -
  have "''copy'' \<in> set (dir_public h)"
    by (simp add: dir_public_iff getattr_def class_attrs_def split: option.splits)
  then show ?thesis by auto
qed

lemma value_ok_indexable: "value_ok n v \<Longrightarrow> \<forall>i\<in>set idx. i < n \<Longrightarrow> indexable idx v"
  by (cases v) (auto simp: value_ok_def indexable_def list_all_iff)

lemma value_ok_cut: "value_ok n v \<Longrightarrow> \<forall>i\<in>set idx. i < n \<Longrightarrow> value_ok (length idx) (cut_val idx v)"
  by (cases v) (auto simp: value_ok_def cut_val_def list_all_iff)

lemma cut_catalog:
  assumes ok: "sem_ok h n" and M: "getattr h ''M'' = Some (Arr m)" and idx: "\<forall>i\<in>set idx. i < n"
  shows "\<exists>h'. cut_in_place (dir_public h) idx h = (None, h')
           \<and> (\<forall>k. k \<noteq> ''nhalo'' \<longrightarrow>
                 getattr h' k = (if take 1 k \<noteq> ''_'' then map_option (cut_val idx) (getattr h k)
                                 else getattr h k))
           \<and> getattr h' ''nhalo'' = Some (PyInt (int (length idx)))
           \<and> sem_ok h' (length idx)"
proof -
  have pre: "\<forall>k\<in>set (dir_public h). \<exists>v. getattr h k = Some v \<and> indexable idx v"
  proof
    fix k assume "k \<in> set (dir_public h)"
    then obtain v where v: "take 1 k \<noteq> ''_''" "getattr h k = Some v"
      by (auto simp: dir_public_iff)
    with ok have "value_ok n v" by (auto simp: sem_ok_def)
    then have "indexable idx v" using idx by (rule value_ok_indexable)
    with v show "\<exists>v. getattr h k = Some v \<and> indexable idx v" by simp
  qed
  from cut_in_place_spec [OF dir_public_distinct pre M] dir_public_nonempty
  obtain h' m' where h': "cut_in_place (dir_public h) idx h = (None, h')"
    and g: "\<forall>k. k \<noteq> ''nhalo'' \<longrightarrow>
             getattr h' k = (if k \<in> set (dir_public h) then map_option (cut_val idx) (getattr h k)
                             else getattr h k)"
    and n: "getattr h' ''M'' = Some (Arr m')" "getattr h' ''nhalo'' = Some (PyInt (int (length m')))"
    by blast
  have g': "\<forall>k. k \<noteq> ''nhalo'' \<longrightarrow>
             getattr h' k = (if take 1 k \<noteq> ''_'' then map_option (cut_val idx) (getattr h k)
                             else getattr h k)"
    using g by (auto simp: dir_public_iff)
  have "value_ok n (Arr m)" using sem_okD [OF ok _ M] by simp
  then have lm: "length m = n" by (simp add: value_ok_def)
  have "getattr h' ''M'' = Some (cut_val idx (Arr m))" using g' M by simp
  then have "m' = map (\<lambda>i. m ! i) idx" using n(1) idx lm by (simp add: cut_val_def list_all_iff)
  then have len: "length m' = length idx" by simp
  have "sem_ok h' (length idx)"
    unfolding sem_ok_def
  proof (intro allI impI)
    fix k v assume a: "take 1 k \<noteq> ''_'' \<and> getattr h' k = Some v"
    show "value_ok (length idx) v"
    proof (cases "k = ''nhalo''")
      case True
      with a n(2) have "v = PyInt (int (length m'))" by simp
      then show ?thesis by (simp add: value_ok_def)
    next
      case False
      with a g' obtain u where "getattr h k = Some u" "v = cut_val idx u" by auto
      with a ok have "value_ok n u" by (auto simp: sem_ok_def)
      with idx \<open>v = cut_val idx u\<close> show ?thesis by (simp add: value_ok_cut)
    qed
  qed
  with h' g' n(2) len show ?thesis by simp
qed


lemma indexcut_in_place:
  "cut_in_place (dir_public h) idx h = (None, h') \<Longrightarrow> indexcut idx True h = (Inr None, h')"
  by (simp add: indexcut_def)

lemma arr_attr_iff: "arr_attr h k = Inr xs \<longleftrightarrow> getattr h k = Some (Arr xs)"
  by (auto simp: arr_attr_def split: option.splits pyval.splits)

lemma np_zip_same: "length xs = length ys \<Longrightarrow> np_zip f xs ys = Inr (map2 f xs ys)"
  by (simp add: np_zip_def)

lemma np_where_map: "np_where (map P [0..<n]) = filter P [0..<n]"
  unfolding np_where_def by (rule filter_cong) simp_all

lemma map2_index:
  "length xs = n \<Longrightarrow> length ys = n \<Longrightarrow>
   map2 f xs ys = map (\<lambda>i. f (xs ! i) (ys ! i)) [0..<n]"
  by (rule nth_equalityI) simp_all

lemma map_index: "length xs = n \<Longrightarrow> map f xs = map (\<lambda>i. f (xs ! i)) [0..<n]"
  by (rule nth_equalityI) simp_all

lemma np_argsort_set: "set (np_argsort a) = {0..<length a}"
  by (simp add: np_argsort_def)

lemma np_argsort_distinct: "distinct (np_argsort a)"
  by (simp add: np_argsort_def)

lemma np_argsort_sorted: "sorted (map (\<lambda>i. a ! i) (np_argsort a))"
  by (simp add: np_argsort_def)

lemma cut_twice:
  assumes "\<forall>j\<in>set idx2. j < length idx1" and "\<forall>i\<in>set idx1. i < length xs"
  shows "cut_val idx2 (cut_val idx1 (Arr xs)) = Arr (map (\<lambda>i. xs ! i) (map (\<lambda>j. idx1 ! j) idx2))"
  using assms by (simp add: cut_val_def list_all_iff)

text \<open>
  C5. On a catalog whose per-halo arrays all have \<open>n\<close> entries, \<^verbatim>\<open>cull\<close> returns
  normally, stores the ordered redshift window on the parameters, and replaces every
  (public) per-halo array by its entries at the positions \<open>idx\<close>, the same for all
  arrays. The positions are distinct and are exactly those of the halos that satisfy
  the mass, redshift and field-of-view conditions: every retained halo satisfies all of
  them, every removed halo violates one. The retained masses are in non-increasing
  order.
\<close>

theorem cull_keeps_exactly_sorted:
  assumes ph: "per_halo_arrays h n"
    and M: "arr_attr h ''M'' = Inr mass" and Z: "arr_attr h ''redshift'' = Inr z"
    and R: "arr_attr h ''ra'' = Inr ra" and D: "arr_attr h ''dec'' = Inr dec"
  shows "\<exists>h' idx.
           cull E p h = (None, h', p\<lparr>z_i := Some (fst (z_window E p)), z_f := Some (snd (z_window E p))\<rparr>)
         \<and> distinct idx
         \<and> set idx = {i. i < n \<and> cull_keeps E p (mass ! i) (z ! i) (ra ! i) (dec ! i)}
         \<and> (\<forall>k xs. take 1 k \<noteq> ''_'' \<and> k \<noteq> ''nhalo'' \<and> getattr h k = Some (Arr xs)
               \<longrightarrow> getattr h' k = Some (Arr (map (\<lambda>i. xs ! i) idx)))
         \<and> sorted (rev (map (\<lambda>i. mass ! i) idx))
         \<and> getattr h' ''nhalo'' = Some (PyInt (int (length idx)))"
proof -
  have ok: "sem_ok h n" using ph by (rule per_halo_arrays_sem)
  have gM: "getattr h ''M'' = Some (Arr mass)" and gZ: "getattr h ''redshift'' = Some (Arr z)"
    and gR: "getattr h ''ra'' = Some (Arr ra)" and gD: "getattr h ''dec'' = Some (Arr dec)"
    using M Z R D by (simp_all add: arr_attr_iff)
  have len: "length mass = n" "length z = n" "length ra = n" "length dec = n"
    using sem_okD [OF ok _ gM] sem_okD [OF ok _ gZ] sem_okD [OF ok _ gR] sem_okD [OF ok _ gD]
    by (simp_all add: value_ok_def)
  define p1 where "p1 = p\<lparr>z_i := Some (fst (z_window E p)), z_f := Some (snd (z_window E p))\<rparr>"
  define keep where "keep = (\<lambda>i. cull_keeps E p (mass ! i) (z ! i) (ra ! i) (dec ! i))"
  define idx1 where "idx1 = filter keep [0..<n]"
  have mask: "map2 (\<and>) (map2 (\<and>) (map2 (\<and>)
                 (map (\<lambda>x. min_mass p < x \<and> x < mass_cutoff p) mass)
                 (map (\<lambda>x. fst (z_window E p) \<le> x \<and> x \<le> snd (z_window E p)) z))
                 (map (\<lambda>x. \<bar>x\<bar> \<le> fov_x p / 2) ra))
                 (map (\<lambda>x. \<bar>x\<bar> \<le> fov_y p / 2) dec) = map keep [0..<n]"
    using len by (intro nth_equalityI) (auto simp: keep_def cull_keeps_def)
  have zw: "(if freq_to_z E (nu_rest p) (nu_f p) < freq_to_z E (nu_rest p) (nu_i p)
             then freq_to_z E (nu_rest p) (nu_f p) else freq_to_z E (nu_rest p) (nu_i p)) = fst (z_window E p)"
      "(if freq_to_z E (nu_rest p) (nu_f p) < freq_to_z E (nu_rest p) (nu_i p)
             then freq_to_z E (nu_rest p) (nu_i p) else freq_to_z E (nu_rest p) (nu_f p)) = snd (z_window E p)"
    by (simp_all add: z_window_def min_def max_def)
  have run: "cull E p h =
      (case indexcut idx1 True h of
         (Inl e, h1) \<Rightarrow> (Some e, h1, p1)
       | (Inr r, h1) \<Rightarrow>
          (case arr_attr h1 ''M'' of Inl e \<Rightarrow> (Some e, h1, p1) | Inr m1 \<Rightarrow>
             (case indexcut (rev (np_argsort m1)) True h1 of
                 (Inl e, h2) \<Rightarrow> (Some e, h2, p1)
               | (Inr r, h2) \<Rightarrow> (None, h2, p1))))"
    unfolding cull_def Let_def zw M Z R D p1_def idx1_def
    using len by (simp add: np_zip_same mask np_where_map del: le_divide_eq_numeral1)
  have i1: "\<forall>i\<in>set idx1. i < n" by (simp add: idx1_def)
  from cut_catalog [OF ok gM i1] obtain h1 where h1:
    "cut_in_place (dir_public h) idx1 h = (None, h1)"
    "\<forall>k. k \<noteq> ''nhalo'' \<longrightarrow>
       getattr h1 k = (if take 1 k \<noteq> ''_'' then map_option (cut_val idx1) (getattr h k) else getattr h k)"
    "sem_ok h1 (length idx1)"
    by blast
  define m1 where "m1 = map (\<lambda>i. mass ! i) idx1"
  have gM1: "getattr h1 ''M'' = Some (Arr m1)"
    using h1(2) gM i1 len by (simp add: cut_val_def list_all_iff m1_def)
  define idx2 where "idx2 = rev (np_argsort m1)"
  have i2: "\<forall>j\<in>set idx2. j < length idx1"
    by (simp add: idx2_def np_argsort_set m1_def)
  from cut_catalog [OF h1(3) gM1 i2] obtain h2 where h2:
    "cut_in_place (dir_public h1) idx2 h1 = (None, h2)"
    "\<forall>k. k \<noteq> ''nhalo'' \<longrightarrow>
       getattr h2 k = (if take 1 k \<noteq> ''_'' then map_option (cut_val idx2) (getattr h1 k) else getattr h1 k)"
    "getattr h2 ''nhalo'' = Some (PyInt (int (length idx2)))"
    by blast
  define idx where "idx = map (\<lambda>j. idx1 ! j) idx2"
  have res: "cull E p h = (None, h2, p1)"
    using run indexcut_in_place [OF h1(1)] gM1 indexcut_in_place [OF h2(1)]
    by (simp add: arr_attr_iff [symmetric] idx2_def)
  have d1: "distinct idx1" by (simp add: idx1_def)
  have d2: "distinct idx2" by (simp add: idx2_def np_argsort_distinct)
  have s2: "set idx2 = {0..<length idx1}" by (simp add: idx2_def np_argsort_set m1_def)
  have inj: "inj_on (\<lambda>j. idx1 ! j) (set idx2)"
    unfolding s2 using d1 by (auto simp: inj_on_def nth_eq_iff_index_eq)
  have dist: "distinct idx" unfolding idx_def using d2 inj by (simp add: distinct_map)
  have "set idx = (\<lambda>j. idx1 ! j) ` {0..<length idx1}" by (simp add: idx_def s2)
  also have "\<dots> = set idx1" by (simp add: set_conv_nth atLeast0LessThan image_def) blast
  also have "\<dots> = {i. i < n \<and> keep i}" by (auto simp: idx1_def)
  finally have sidx: "set idx = {i. i < n \<and> cull_keeps E p (mass ! i) (z ! i) (ra ! i) (dec ! i)}"
    by (simp add: keep_def)
  have attrs: "\<forall>k xs. take 1 k \<noteq> ''_'' \<and> k \<noteq> ''nhalo'' \<and> getattr h k = Some (Arr xs)
               \<longrightarrow> getattr h2 k = Some (Arr (map (\<lambda>i. xs ! i) idx))"
  proof (intro allI impI)
    fix k xs assume a: "take 1 k \<noteq> ''_'' \<and> k \<noteq> ''nhalo'' \<and> getattr h k = Some (Arr xs)"
    then have "value_ok n (Arr xs)" using sem_okD [OF ok] by blast
    then have lx: "\<forall>i\<in>set idx1. i < length xs" using i1 by (simp add: value_ok_def)
    from a h1(2) h2(2) have "getattr h2 k = Some (cut_val idx2 (cut_val idx1 (Arr xs)))" by simp
    then show "getattr h2 k = Some (Arr (map (\<lambda>i. xs ! i) idx))"
      using cut_twice [OF i2 lx] by (simp add: idx_def)
  qed
  have "map (\<lambda>i. mass ! i) idx = map (\<lambda>j. m1 ! j) idx2"
    using i2 by (simp add: idx_def m1_def)
  then have "rev (map (\<lambda>i. mass ! i) idx) = map (\<lambda>j. m1 ! j) (np_argsort m1)"
    by (simp add: idx2_def rev_map)
  then have srt: "sorted (rev (map (\<lambda>i. mass ! i) idx))"
    by (simp add: np_argsort_sorted)
  have "length idx = length idx2" by (simp add: idx_def)
  with res dist sidx attrs srt h2(3) show ?thesis
    unfolding p1_def by (intro exI [of _ h2] exI [of _ idx]) simp
qed


lemma cull_example:
  "cull example_env example_params example_halos =
     (None,
      [(''M'', Arr [300, 100]), (''cosmo'', Obj), (''dec'', Arr [1, 0]), (''nhalo'', PyInt 2),
       (''ra'', Arr [- 1, 1]), (''redshift'', Arr [2.2, 2.5])],
      example_params\<lparr>z_i := Some 2, z_f := Some 3\<rparr>)"
  by (simp add: cull_def indexcut_def example_env_def example_params_def example_halos_def arr_attr_def
      getattr_def setattr_def np_zip_def np_where_def np_argsort_def dir_public_def class_attrs_def
      Let_def upt_rec)

theorem cull_keeps_exactly_sorted_witness:
  "per_halo_arrays example_halos 3
   \<and> arr_attr example_halos ''M'' = Inr [100, 5, 300]
   \<and> arr_attr example_halos ''redshift'' = Inr [2.5, 2.5, 2.2]
   \<and> arr_attr example_halos ''ra'' = Inr [1, 0, - 1]
   \<and> arr_attr example_halos ''dec'' = Inr [0, 0, 1]
   \<and> (\<exists>h' idx.
           cull example_env example_params example_halos
             = (None, h', example_params\<lparr>z_i := Some (fst (z_window example_env example_params)),
                                          z_f := Some (snd (z_window example_env example_params))\<rparr>)
         \<and> distinct idx
         \<and> set idx = {i. i < 3 \<and> cull_keeps example_env example_params
                                  ([100, 5, 300] ! i) ([2.5, 2.5, 2.2] ! i) ([1, 0, - 1] ! i) ([0, 0, 1] ! i)}
         \<and> sorted (rev (map (\<lambda>i. [100, 5, 300 :: real] ! i) idx))
         \<and> getattr h' ''nhalo'' = Some (PyInt (int (length idx))))
   \<and> getattr (fst (snd (cull example_env example_params example_halos))) ''M'' = Some (Arr [300, 100])"
proof -
  have a: "per_halo_arrays example_halos 3"
    by (simp add: per_halo_arrays_def example_halos_def value_ok_def)
  have b: "arr_attr example_halos ''M'' = Inr [100, 5, 300]"
    "arr_attr example_halos ''redshift'' = Inr [2.5, 2.5, 2.2]"
    "arr_attr example_halos ''ra'' = Inr [1, 0, - 1]"
    "arr_attr example_halos ''dec'' = Inr [0, 0, 1]"
    by (simp_all add: example_halos_def arr_attr_def getattr_def)
  have c: "getattr (fst (snd (cull example_env example_params example_halos))) ''M'' = Some (Arr [300, 100])"
    by (simp add: cull_example getattr_def)
  from cull_keeps_exactly_sorted [OF a b, of example_env example_params] a b c
  show ?thesis by blast
qed

section \<open>Observational downsampling\<close>
















section \<open>Abundance matching\<close>

text \<open>
  Linear interpolation over increasing sample points with non-increasing values is
  non-increasing in its argument.
\<close>

lemma interp_from_upper:
  "sorted (map fst ps) \<Longrightarrow> descending (map snd ps) \<Longrightarrow> ps \<noteq> [] \<Longrightarrow> fst (hd ps) \<le> x
   \<Longrightarrow> interp_from x ps \<le> snd (hd ps)"
proof (induction x ps rule: interp_from.induct)
  case (1 x)
  then show ?case by simp
next
  case (2 x a fa)
  then show ?case by simp
next
  case (3 x a fa b fb ps)
  show ?case
  proof (cases "x < b")
    case True
    have ab: "a < b" using True "3.prems"(4) by simp
    have fba: "fb \<le> fa" using "3.prems"(2) by (simp add: descending_def)
    have "(fb - fa) / (b - a) * (x - a) \<le> 0"
      using ab fba "3.prems"(4) by (simp add: mult_nonpos_nonneg divide_nonpos_pos)
    then show ?thesis using True by simp
  next
    case False
    have "interp_from x ((b, fb) # ps) \<le> fb"
      using "3.IH" [OF False] "3.prems" False by (simp add: descending_def)
    moreover have "fb \<le> fa" using "3.prems"(2) by (simp add: descending_def)
    ultimately show ?thesis using False by simp
  qed
qed

lemma descending_last: "descending xs \<Longrightarrow> x \<in> set xs \<Longrightarrow> last xs \<le> x"
  unfolding descending_def
  by (induction xs) (auto split: if_splits)

lemma interp_from_lower:
  "sorted (map fst ps) \<Longrightarrow> descending (map snd ps) \<Longrightarrow> ps \<noteq> [] \<Longrightarrow> fst (hd ps) \<le> x
   \<Longrightarrow> snd (last ps) \<le> interp_from x ps"
proof (induction x ps rule: interp_from.induct)
  case (1 x)
  then show ?case by simp
next
  case (2 x a fa)
  then show ?case by simp
next
  case (3 x a fa b fb ps)
  have "descending (map snd ((b, fb) # ps))"
    using "3.prems"(2) by (simp add: descending_def)
  then have "last (map snd ((b, fb) # ps)) \<le> fb"
    by (rule descending_last) simp
  then have lastle: "snd (last ((b, fb) # ps)) \<le> fb"
    by (simp only: last_map [OF list.distinct(2)])
  show ?case
  proof (cases "x < b")
    case True
    have ab: "a < b" using True "3.prems"(4) by simp
    have fba: "fb \<le> fa" using "3.prems"(2) by (simp add: descending_def)
    have t: "(x - a) / (b - a) \<le> 1" using True ab by simp
    have "(fb - fa) / (b - a) * (x - a) = (fb - fa) * ((x - a) / (b - a))" by simp
    also have "\<dots> \<ge> (fb - fa) * 1"
      using fba t by (intro mult_left_mono_neg) simp_all
    finally have "fb \<le> (fb - fa) / (b - a) * (x - a) + fa" by simp
    with lastle fba True show ?thesis by simp
  next
    case False
    then show ?thesis
      using "3.IH" [OF False] "3.prems" by (simp add: descending_def)
  qed
qed

lemma interp_from_antitone:
  "sorted (map fst ps) \<Longrightarrow> descending (map snd ps) \<Longrightarrow> ps \<noteq> [] \<Longrightarrow> fst (hd ps) \<le> x
   \<Longrightarrow> x \<le> y \<Longrightarrow> interp_from y ps \<le> interp_from x ps"
proof (induction x ps rule: interp_from.induct)
  case (1 x)
  then show ?case by simp
next
  case (2 x a fa)
  then show ?case by simp
next
  case (3 x a fa b fb ps)
  have fba: "fb \<le> fa" using "3.prems"(2) by (simp add: descending_def)
  have tl: "sorted (map fst ((b, fb) # ps))" "descending (map snd ((b, fb) # ps))"
    using "3.prems"(1,2) by (simp_all add: descending_def)
  show ?case
  proof (cases "x < b")
    case xb: True
    have ab: "a < b" using xb "3.prems"(4) by simp
    have slope: "(fb - fa) / (b - a) \<le> 0" using ab fba by (simp add: divide_nonpos_pos)
    show ?thesis
    proof (cases "y < b")
      case True
      have "(fb - fa) / (b - a) * (y - a) \<le> (fb - fa) / (b - a) * (x - a)"
        using slope "3.prems"(5) by (intro mult_left_mono_neg) simp_all
      moreover have "(fb - fa) / (b - a) * (y - a) \<le> 0"
      proof -
        have "0 \<le> y - a" using "3.prems"(4,5) by simp
        with slope show ?thesis by (rule mult_nonpos_nonneg)
      qed
      ultimately show ?thesis using xb True "3.prems"(4,5) by auto
    next
      case False
      have "interp_from y ((b, fb) # ps) \<le> fb"
        using interp_from_upper [OF tl, of y] False by simp
      moreover have "fb \<le> interp_from x ((a, fa) # (b, fb) # ps)"
      proof -
        have t: "(x - a) / (b - a) \<le> 1" using xb ab by simp
        have "(fb - fa) / (b - a) * (x - a) = (fb - fa) * ((x - a) / (b - a))" by simp
        also have "\<dots> \<ge> (fb - fa) * 1"
          using fba t by (intro mult_left_mono_neg) simp_all
        finally have "fb \<le> (fb - fa) / (b - a) * (x - a) + fa" by simp
        with fba xb show ?thesis by simp
      qed
      ultimately show ?thesis using False by simp
    qed
  next
    case False
    then have "\<not> y < b" using "3.prems"(5) by simp
    with False show ?thesis
      using "3.IH" [OF False tl] "3.prems"(5) by simp
  qed
qed

lemma interp1_antitone:
  assumes "sorted xp" and "descending fp" and "xp \<noteq> []" and "length xp = length fp" and "x \<le> y"
  shows "interp1 xp fp y \<le> interp1 xp fp x"
proof -
  define ps where "ps = zip xp fp"
  have fst: "map fst ps = xp" and snd: "map snd ps = fp" using assms(4) by (simp_all add: ps_def)
  have ne: "ps \<noteq> []" using assms(3,4) by (cases xp; cases fp) (simp_all add: ps_def)
  have s: "sorted (map fst ps)" "descending (map snd ps)" using assms(1,2) fst snd by simp_all
  have hd: "fst (hd ps) = hd xp" "snd (hd ps) = hd fp"
    using assms(3,4) by (cases xp; cases fp; simp add: ps_def)+
  have fne: "fp \<noteq> []" using assms(3,4) by auto
  have lst: "snd (last ps) = last fp" using ne snd by (metis last_map)
  have hl: "last fp \<le> hd fp" using descending_last [OF assms(2), of "hd fp"] fne by simp
  consider "last xp < y" | "y \<le> last xp" "y < hd xp" | "y \<le> last xp" "hd xp \<le> y" by linarith
  then show ?thesis
  proof cases
    case 1
    then have ry: "interp1 xp fp y = last fp" by (simp add: interp1_def)
    show ?thesis
    proof (cases "last xp < x")
      case True
      then show ?thesis using ry by (simp add: interp1_def)
    next
      case False
      show ?thesis
      proof (cases "x < hd xp")
        case True
        with False ry hl show ?thesis by (simp add: interp1_def)
      next
        case h: False
        have "snd (last ps) \<le> interp_from x ps"
          using interp_from_lower [OF s ne, of x] h hd by simp
        with False h ry lst show ?thesis by (simp add: interp1_def ps_def)
      qed
    qed
  next
    case 2
    with assms(5) show ?thesis by (simp add: interp1_def)
  next
    case 3
    then have ry: "interp1 xp fp y = interp_from y ps" by (simp add: interp1_def ps_def)
    have xl: "\<not> last xp < x" using 3 assms(5) by simp
    show ?thesis
    proof (cases "x < hd xp")
      case True
      have "interp_from y ps \<le> snd (hd ps)"
        using interp_from_upper [OF s ne, of y] 3 hd by simp
      with True xl ry hd show ?thesis by (simp add: interp1_def)
    next
      case False
      have "interp_from y ps \<le> interp_from x ps"
        using interp_from_antitone [OF s ne, of x y] False hd assms(5) by simp
      with False xl ry show ?thesis by (simp add: interp1_def ps_def)
    qed
  qed
qed


lemma tail_sums_descending:
  assumes "\<forall>x\<in>set a. 0 \<le> (x::real)"
  shows "descending (tail_sums a)"
  unfolding descending_def sorted_wrt_iff_nth_less
proof (intro allI impI)
  fix i j assume ij: "i < j" and j: "j < length (tail_sums a)"
  then have ja: "j < length a" and ia: "i < length a" by (simp_all add: tail_sums_def)
  have "drop i a = take (j - i) (drop i a) @ drop j a"
    using ij by (metis append_take_drop_id drop_drop le_add_diff_inverse2 less_imp_le)
  then have "sum_list (drop i a) = sum_list (take (j - i) (drop i a)) + sum_list (drop j a)"
    by (metis sum_list_append)
  moreover have "0 \<le> sum_list (take (j - i) (drop i a))"
    using assms by (intro sum_list_nonneg) (auto dest!: in_set_takeD in_set_dropD)
  ultimately have "sum_list (drop j a) \<le> sum_list (drop i a)" by simp
  then show "tail_sums a ! j \<le> tail_sums a ! i"
    using ia ja by (simp add: tail_sums_def)
qed

lemma length_tail_sums: "length (tail_sums a) = length a"
  by (simp add: tail_sums_def)

lemma length_linspace: "length (np_linspace a b n) = Suc n"
  by (simp add: np_linspace_def)

lemma nth_linspace: "k \<le> n \<Longrightarrow> np_linspace a b n ! k = a + real k * (b - a) / real n"
  unfolding np_linspace_def by (simp add: nth_map_upt del: upt_Suc)

lemma length_cents: "length (np_cents e) = length e - 1"
  by (simp add: np_cents_def)

lemma length_diff: "length (np_diff e) = length e - 1"
  by (simp add: np_diff_def)

lemma linspace_step:
  assumes "a \<le> b" and "k < n"
  shows "np_linspace a b n ! k \<le> np_linspace a b n ! Suc k"
proof -
  have "real k * (b - a) / real n \<le> real (Suc k) * (b - a) / real n"
    using assms by (intro divide_right_mono mult_right_mono) simp_all
  then show ?thesis using assms by (simp add: nth_linspace del: of_nat_Suc)
qed

lemma linspace_mono:
  assumes "a \<le> b" and "i \<le> j" and "j \<le> n"
  shows "np_linspace a b n ! i \<le> np_linspace a b n ! j"
proof -
  have "real i * (b - a) / real n \<le> real j * (b - a) / real n"
    using assms by (intro divide_right_mono mult_right_mono) simp_all
  then show ?thesis using assms by (simp add: nth_linspace)
qed

lemma cents_linspace_sorted:
  assumes "a \<le> b"
  shows "sorted (np_cents (np_linspace a b n))"
  unfolding sorted_iff_nth_mono_less
proof (intro allI impI)
  fix i j assume ij: "i < j" and j: "j < length (np_cents (np_linspace a b n))"
  then have jn: "j < n" by (simp add: length_cents length_linspace)
  let ?e = "np_linspace a b n"
  have 1: "?e ! i \<le> ?e ! Suc i" using linspace_step [OF assms, of i n] ij jn by simp
  have 2: "?e ! Suc i \<le> ?e ! j" using linspace_mono [OF assms, of "Suc i" j n] ij jn by simp
  have 3: "?e ! j \<le> ?e ! Suc j" using linspace_step [OF assms jn] .
  have "?e ! i + (?e ! Suc i - ?e ! i) / 2 \<le> ?e ! Suc i" using 1 by (simp add: field_simps)
  also have "\<dots> \<le> ?e ! j" by (rule 2)
  also have "\<dots> \<le> ?e ! j + (?e ! Suc j - ?e ! j) / 2" using 3 by (simp add: field_simps)
  finally show "np_cents ?e ! i \<le> np_cents ?e ! j"
    using ij jn by (simp add: np_cents_def length_linspace)
qed

lemma diff_linspace_nonneg:
  assumes "a \<le> b"
  shows "\<forall>x\<in>set (np_diff (np_linspace a b n)). 0 \<le> x"
proof
  fix x assume "x \<in> set (np_diff (np_linspace a b n))"
  then obtain k where k: "k < n" and x: "x = np_linspace a b n ! Suc k - np_linspace a b n ! k"
    by (auto simp: np_diff_def length_linspace)
  show "0 \<le> x" using linspace_step [OF assms k] x by simp
qed

lemma fold_min_le: "fold min v (a::real) \<le> a"
  by (induction v arbitrary: a) (auto intro: order_trans [OF _ min.cobounded2])

lemma fold_max_ge': "(a::real) \<le> fold max v a"
  by (induction v arbitrary: a) (auto intro: order_trans [OF max.cobounded2])

lemma histogram_edges_linspace:
  "\<exists>a b. a \<le> b \<and> histogram_edges v bins = np_linspace a b bins"
proof -
  define lo where "lo = (if v = [] then 0 else fold min v (hd v))"
  define hi where "hi = (if v = [] then 1 else fold max v (hd v))"
  have le: "lo \<le> hi"
    using fold_min_le [of v "hd v"] fold_max_ge' [of "hd v" v] by (simp add: lo_def hi_def)
  have e: "histogram_edges v bins =
      np_linspace (if lo = hi then lo - 0.5 else lo) (if lo = hi then hi + 0.5 else hi) bins"
    by (simp add: histogram_edges_def Let_def lo_def hi_def)
  have "(if lo = hi then lo - 0.5 else lo) \<le> (if lo = hi then hi + 0.5 else hi)"
    using le by simp
  with e show ?thesis by blast
qed

lemma halomassfunction_shape:
  assumes M: "arr_attr (catalog w) ''M'' = Inr m" and pos: "\<forall>x\<in>set m. 0 < x"
    and cosmo: "hasattr (catalog w) ''cosmo''"
    and zi: "z_i (params w) = Some zi" and zf: "z_f (params w) = Some zf"
    and vol: "0 < survey_volume E zi zf (fov_x (params w)) (fov_y (params w))"
  shows "\<exists>xs ns. halomassfunction E w = Inr (xs, ns) \<and> sorted xs \<and> descending ns
           \<and> length xs = 500 \<and> length ns = 500"
proof -
  define logm where "logm = map (log 10) m"
  obtain a b where ab: "a \<le> b" "histogram_edges logm 500 = np_linspace a b 500"
    using histogram_edges_linspace by blast
  define N where "N = histogram_counts logm 500"
  define v where "v = survey_volume E zi zf (fov_x (params w)) (fov_y (params w))"
  define prod where "prod = map2 (*) (map (\<lambda>n. real n / v) N) (np_diff (np_linspace a b 500))"
  have lN: "length N = 500" by (simp add: N_def histogram_counts_def Let_def)
  have nex: "\<not> list_ex (\<lambda>x. x \<le> 0) m" using pos by (force simp: list_ex_iff)
  have run: "halomassfunction E w = Inr (np_cents (np_linspace a b 500), tail_sums prod)"
    unfolding halomassfunction_def M
    using nex cosmo zi zf ab(2)
    by (simp add: Let_def logm_def [symmetric] N_def [symmetric] v_def [symmetric] prod_def)
  have "\<forall>x\<in>set prod. 0 \<le> x"
  proof
    fix x assume "x \<in> set prod"
    then obtain p q where pq: "x = p * q"
        "(p, q) \<in> set (zip (map (\<lambda>n. real n / v) N) (np_diff (np_linspace a b 500)))"
      unfolding prod_def by auto
    have "p \<in> set (map (\<lambda>n. real n / v) N)" using pq(2) by (rule set_zip_leftD)
    then have "0 \<le> p" using vol by (auto simp: v_def)
    moreover have "q \<in> set (np_diff (np_linspace a b 500))" using pq(2) by (rule set_zip_rightD)
    then have "0 \<le> q" using diff_linspace_nonneg [OF ab(1)] by blast
    ultimately show "0 \<le> x" using pq(1) by simp
  qed
  then have d: "descending (tail_sums prod)" by (rule tail_sums_descending)
  have l: "length (tail_sums prod) = 500"
    by (simp add: length_tail_sums prod_def lN length_diff length_linspace)
  show ?thesis
    using run cents_linspace_sorted [OF ab(1)] d l
    by (simp add: length_cents length_linspace)
qed

lemma halomassfunction_volume:
  assumes "comoving_volume E' = comoving_volume E"
  shows "halomassfunction E' w = halomassfunction E w"
proof -
  have e: "survey_volume E' = survey_volume E"
    using assms by (simp add: fun_eq_iff survey_volume_def)
  show ?thesis unfolding halomassfunction_def e ..
qed

lemma abundancematch_volume:
  assumes "comoving_volume E' = comoving_volume E"
  shows "abundancematch E' function cs w = abundancematch E function cs w"
proof -
  have e: "halomassfunction E' = halomassfunction E"
    using assms by (simp add: fun_eq_iff halomassfunction_volume)
  show ?thesis unfolding abundancematch_def e ..
qed

text \<open>
  C6. Let the luminosity range be ordered (\<open>Lmin \<le> Lmax\<close>), the luminosity function
  return one non-negative density per bin centre, the masses be positive, and the survey
  volume be positive. Then \<^verbatim>\<open>abundancematch\<close> returns normally with one luminosity per
  halo and stores it as \<^verbatim>\<open>halos.Lcat\<close>; a halo of strictly lower mass never gets a
  higher luminosity; and the result is a function of the catalog, the parameters, the
  coefficients and the cosmology's volume alone: no random generator enters it.
\<close>

theorem abundance_matching_monotone:
  assumes len: "2 \<le> length cs"
    and rng: "cs ! (length cs - 2) \<le> cs ! (length cs - 1)"
    and phi: "function (map (\<lambda>l. 10 powr l)
                 (np_cents (np_linspace (cs ! (length cs - 2)) (cs ! (length cs - 1)) 100))) cs = Inr phi"
    and lphi: "length phi = 100" and nphi: "\<forall>x\<in>set phi. 0 \<le> x"
    and M: "arr_attr (catalog w) ''M'' = Inr m" and pos: "\<forall>x\<in>set m. 0 < x"
    and cosmo: "hasattr (catalog w) ''cosmo''"
    and zi: "z_i (params w) = Some zi" and zf: "z_f (params w) = Some zf"
    and vol: "0 < survey_volume E zi zf (fov_x (params w)) (fov_y (params w))"
  shows "\<exists>L. abundancematch E function cs w
               = (Inr (RetTuple (Arr L) (params w)), w\<lparr>catalog := setattr (catalog w) ''Lcat'' (Arr L)\<rparr>)
           \<and> length L = length m
           \<and> (\<forall>i j. i < length m \<and> j < length m \<and> m ! i < m ! j \<longrightarrow> L ! i \<le> L ! j)
           \<and> (\<forall>E'. comoving_volume E' = comoving_volume E
                 \<longrightarrow> abundancematch E' function cs w = abundancematch E function cs w)"
proof -
  define e where "e = np_linspace (cs ! (length cs - 2)) (cs ! (length cs - 1)) 100"
  define cents where "cents = np_cents e"
  define dL where "dL = map (\<lambda>k. 10 powr (e ! Suc k) - 10 powr (e ! k)) [0..<100]"
  define phiLdL where "phiLdL = map2 (*) phi dL"
  define intL where "intL = tail_sums phiLdL"
  have ldL: "length dL = 100" by (simp add: dL_def)
  have ndL: "\<forall>x\<in>set dL. 0 \<le> x"
  proof
    fix x assume "x \<in> set dL"
    then obtain k where k: "k < 100" "x = 10 powr (e ! Suc k) - 10 powr (e ! k)"
      by (auto simp: dL_def)
    have "e ! k \<le> e ! Suc k" unfolding e_def using rng k(1) by (rule linspace_step)
    then have "(10::real) powr (e ! k) \<le> 10 powr (e ! Suc k)" by (simp add: powr_mono)
    with k(2) show "0 \<le> x" by simp
  qed
  have zipL: "np_zip (*) phi dL = Inr phiLdL"
    using lphi ldL by (simp add: np_zip_same phiLdL_def)
  have "\<forall>x\<in>set phiLdL. 0 \<le> x"
  proof
    fix x assume "x \<in> set phiLdL"
    then obtain p q where pq: "x = p * q" "(p, q) \<in> set (zip phi dL)"
      unfolding phiLdL_def by auto
    have "0 \<le> p" using set_zip_leftD [OF pq(2)] nphi by blast
    moreover have "0 \<le> q" using set_zip_rightD [OF pq(2)] ndL by blast
    ultimately show "0 \<le> x" using pq(1) by simp
  qed
  then have dint: "descending intL" unfolding intL_def by (rule tail_sums_descending)
  have lint: "length intL = 100"
    by (simp add: intL_def length_tail_sums phiLdL_def lphi ldL)
  have lcents: "length cents = 100" by (simp add: cents_def e_def length_cents length_linspace)
  have scents: "sorted cents" unfolding cents_def e_def using rng by (rule cents_linspace_sorted)
  have s1: "sorted (rev intL)" using dint by (simp add: descending_def sorted_wrt_rev)
  have d1: "descending (rev cents)" using scents by (simp add: descending_def sorted_wrt_rev)
  from halomassfunction_shape [OF M pos cosmo zi zf vol] obtain xs ns where hm:
    "halomassfunction E w = Inr (xs, ns)" "sorted xs" "descending ns"
    "length xs = 500" "length ns = 500"
    by blast
  define intM where "intM = map (interp1 xs ns) (map (log 10) m)"
  define Lfor where "Lfor = map (interp1 (rev intL) (rev cents)) intM"
  define L where "L = map (\<lambda>l. 10 powr l / (3.826 * 10 ^ 33)) Lfor"
  have xne: "xs \<noteq> []" using hm(4) by auto
  have i1: "np_interp (map (log 10) m) xs ns = Inr intM"
    using xne hm(4,5) by (simp add: np_interp_def intM_def)
  have rne: "rev intL \<noteq> []" using lint by auto
  have i2: "np_interp intM (rev intL) (rev cents) = Inr Lfor"
    using rne lint lcents by (simp add: np_interp_def Lfor_def)
  have lencs: "\<not> length cs < 2" using len by simp
  have run: "abundancematch E function cs w
               = (Inr (RetTuple (Arr L) (params w)), w\<lparr>catalog := setattr (catalog w) ''Lcat'' (Arr L)\<rparr>)"
    unfolding abundancematch_def Let_def e_def [symmetric] cents_def [symmetric] dL_def [symmetric]
    using lencs phi [unfolded e_def [symmetric] cents_def [symmetric]]
    by (simp add: py_bind_def zipL intL_def [symmetric] hm(1) M i1 i2 L_def)
  have lL: "length L = length m" by (simp add: L_def Lfor_def intM_def)
  have mono: "\<forall>i j. i < length m \<and> j < length m \<and> m ! i < m ! j \<longrightarrow> L ! i \<le> L ! j"
  proof (intro allI impI)
    fix i j assume a: "i < length m \<and> j < length m \<and> m ! i < m ! j"
    then have pi: "0 < m ! i" and pj: "0 < m ! j" using pos by simp_all
    have "log 10 (m ! i) \<le> log 10 (m ! j)" using a pi pj by simp
    moreover have lx: "length xs = length ns" by (simp add: hm)
    ultimately have "interp1 xs ns (log 10 (m ! j)) \<le> interp1 xs ns (log 10 (m ! i))"
      using interp1_antitone [OF hm(2) hm(3) xne] by blast
    moreover have "length (rev intL) = length (rev cents)" by (simp add: lint lcents)
    ultimately have "interp1 (rev intL) (rev cents) (interp1 xs ns (log 10 (m ! i)))
             \<le> interp1 (rev intL) (rev cents) (interp1 xs ns (log 10 (m ! j)))"
      using interp1_antitone [OF s1 d1 rne] by blast
    then have "(10::real) powr interp1 (rev intL) (rev cents) (interp1 xs ns (log 10 (m ! i)))
             \<le> 10 powr interp1 (rev intL) (rev cents) (interp1 xs ns (log 10 (m ! j)))"
      by (simp add: powr_mono)
    then show "L ! i \<le> L ! j"
      using a by (simp add: L_def Lfor_def intM_def divide_right_mono)
  qed
  have det: "\<forall>E'. comoving_volume E' = comoving_volume E
                 \<longrightarrow> abundancematch E' function cs w = abundancematch E function cs w"
    by (intro allI impI) (rule abundancematch_volume)
  show ?thesis
    by (rule exI [of _ L]) (intro conjI run lL mono det)
qed

lemma schechter_nonneg:
  assumes "length cs = 5" and "0 < cs ! 0" and "0 \<le> cs ! 1"
  shows "\<exists>phi. schechter L cs = Inr phi \<and> length phi = length L \<and> (\<forall>x\<in>set phi. 0 \<le> x)"
proof -
  define f where "f = (\<lambda>l. (cs ! 1 / cs ! 0) * (l / cs ! 0) powr (cs ! 2) * exp (- l / cs ! 0))"
  have q: "0 \<le> cs ! 1 / cs ! 0" using assms by simp
  have nn: "0 \<le> f l" for l
  proof -
    have "0 \<le> (cs ! 1 / cs ! 0) * (l / cs ! 0) powr (cs ! 2)"
      using q by (rule mult_nonneg_nonneg) simp
    then show ?thesis unfolding f_def by (rule mult_nonneg_nonneg) simp
  qed
  have "schechter L cs = Inr (map f L)"
    using assms by (simp add: schechter_def Let_def f_def)
  moreover have "\<forall>x\<in>set (map f L). 0 \<le> x" using nn by simp
  ultimately show ?thesis by simp
qed

theorem abundance_matching_monotone_witness:
  "2 \<le> length ouchi_coeffs
   \<and> ouchi_coeffs ! (length ouchi_coeffs - 2) \<le> ouchi_coeffs ! (length ouchi_coeffs - 1)
   \<and> arr_attr (catalog matched_world) ''M'' = Inr [100, 5, 300]
   \<and> hasattr (catalog matched_world) ''cosmo''
   \<and> 0 < survey_volume example_env 2 3 (fov_x (params matched_world)) (fov_y (params matched_world))
   \<and> (\<exists>L. abundancematch example_env schechter ouchi_coeffs matched_world
               = (Inr (RetTuple (Arr L) (params matched_world)),
                  matched_world\<lparr>catalog := setattr (catalog matched_world) ''Lcat'' (Arr L)\<rparr>)
           \<and> length L = 3 \<and> L ! 1 \<le> L ! 0 \<and> L ! 0 \<le> L ! 2)"
proof -
  have a: "2 \<le> length ouchi_coeffs"
    "ouchi_coeffs ! (length ouchi_coeffs - 2) \<le> ouchi_coeffs ! (length ouchi_coeffs - 1)"
    by (simp_all add: ouchi_coeffs_def)
  have c: "length ouchi_coeffs = 5" "0 < ouchi_coeffs ! 0" "0 \<le> ouchi_coeffs ! 1"
    by (simp_all add: ouchi_coeffs_def)
  define grid where "grid = map (\<lambda>l. 10 powr l)
       (np_cents (np_linspace (ouchi_coeffs ! (length ouchi_coeffs - 2))
          (ouchi_coeffs ! (length ouchi_coeffs - 1)) 100))"
  have lg: "length grid = 100" by (simp add: grid_def length_cents length_linspace)
  from schechter_nonneg [OF c, of grid] obtain phi where phi0:
    "schechter grid ouchi_coeffs = Inr phi" "length phi = length grid" "\<forall>x\<in>set phi. 0 \<le> x"
    by blast
  have phi: "schechter (map (\<lambda>l. 10 powr l)
       (np_cents (np_linspace (ouchi_coeffs ! (length ouchi_coeffs - 2))
          (ouchi_coeffs ! (length ouchi_coeffs - 1)) 100))) ouchi_coeffs = Inr phi"
    "length phi = 100" "\<forall>x\<in>set phi. 0 \<le> x"
    using phi0 lg by (simp_all only: grid_def [symmetric])
  have M: "arr_attr (catalog matched_world) ''M'' = Inr [100, 5, 300]"
    by (simp add: matched_world_def example_world_def example_halos_def arr_attr_def getattr_def)
  have pos: "\<forall>x\<in>set [100, 5, 300 :: real]. 0 < x" by simp
  have cosmo: "hasattr (catalog matched_world) ''cosmo''"
    by (simp add: matched_world_def example_world_def example_halos_def hasattr_def getattr_def)
  have z: "z_i (params matched_world) = Some 2" "z_f (params matched_world) = Some 3"
    by (simp_all add: matched_world_def example_world_def)
  have vol: "0 < survey_volume example_env 2 3 (fov_x (params matched_world)) (fov_y (params matched_world))"
    by (simp add: survey_volume_def example_env_def matched_world_def example_world_def
        example_params_def)
  from abundance_matching_monotone [of ouchi_coeffs schechter, OF a phi M pos cosmo z vol]
  obtain L where L: "abundancematch example_env schechter ouchi_coeffs matched_world
               = (Inr (RetTuple (Arr L) (params matched_world)),
                  matched_world\<lparr>catalog := setattr (catalog matched_world) ''Lcat'' (Arr L)\<rparr>)"
    "length L = length [100, 5, 300 :: real]"
    "\<forall>i j. i < length [100, 5, 300 :: real] \<and> j < length [100, 5, 300 :: real]
         \<and> [100, 5, 300 :: real] ! i < [100, 5, 300] ! j \<longrightarrow> L ! i \<le> L ! j"
    by blast
  have "L ! 1 \<le> L ! 0" using L(3) [rule_format, of 1 0] by simp
  moreover have "L ! 0 \<le> L ! 2" using L(3) [rule_format, of 0 2] by simp
  ultimately show ?thesis using a M cosmo vol L(1,2) by auto
qed

end
